theory Spec2Isabelle
  imports Complex_Main "HOL-Library.List_Lexorder" "HOL-Library.Char_ord"
begin

section \<open>JavaScript numbers\<close>

text \<open>
  The simulation computes with JavaScript numbers. A finite number is modelled by the
  real it denotes (rounding to the nearest double and the sign of zero are not
  modelled); the three values a computation can produce beyond the finite ones are
  constructors of their own, so that a division by zero or a logarithm of a negative
  number is a branch of the model and not an unspecified real.
\<close>

datatype jsnum = Num real | PosInf | NegInf | NaN

fun js_neg :: "jsnum \<Rightarrow> jsnum" where
  "js_neg (Num a) = Num (- a)"
| "js_neg PosInf = NegInf"
| "js_neg NegInf = PosInf"
| "js_neg NaN = NaN"

fun js_add :: "jsnum \<Rightarrow> jsnum \<Rightarrow> jsnum" where
  "js_add NaN _ = NaN"
| "js_add _ NaN = NaN"
| "js_add (Num a) (Num b) = Num (a + b)"
| "js_add (Num a) PosInf = PosInf"
| "js_add (Num a) NegInf = NegInf"
| "js_add PosInf (Num b) = PosInf"
| "js_add NegInf (Num b) = NegInf"
| "js_add PosInf PosInf = PosInf"
| "js_add NegInf NegInf = NegInf"
| "js_add PosInf NegInf = NaN"
| "js_add NegInf PosInf = NaN"

definition js_sub :: "jsnum \<Rightarrow> jsnum \<Rightarrow> jsnum" where
  "js_sub a b = js_add a (js_neg b)"

text \<open>The sign of an infinite product or quotient: \<open>True\<close> is positive.\<close>

definition inf_of_sign :: "bool \<Rightarrow> jsnum" where
  "inf_of_sign pos = (if pos then PosInf else NegInf)"

fun js_mul :: "jsnum \<Rightarrow> jsnum \<Rightarrow> jsnum" where
  "js_mul NaN _ = NaN"
| "js_mul _ NaN = NaN"
| "js_mul (Num a) (Num b) = Num (a * b)"
| "js_mul (Num a) PosInf = (if a = 0 then NaN else inf_of_sign (0 < a))"
| "js_mul (Num a) NegInf = (if a = 0 then NaN else inf_of_sign (a < 0))"
| "js_mul PosInf (Num b) = (if b = 0 then NaN else inf_of_sign (0 < b))"
| "js_mul NegInf (Num b) = (if b = 0 then NaN else inf_of_sign (b < 0))"
| "js_mul PosInf PosInf = PosInf"
| "js_mul NegInf NegInf = PosInf"
| "js_mul PosInf NegInf = NegInf"
| "js_mul NegInf PosInf = NegInf"

fun js_div :: "jsnum \<Rightarrow> jsnum \<Rightarrow> jsnum" where
  "js_div NaN _ = NaN"
| "js_div _ NaN = NaN"
| "js_div (Num a) (Num b) =
     (if b = 0 then (if a = 0 then NaN else inf_of_sign (0 < a)) else Num (a / b))"
| "js_div (Num a) PosInf = Num 0"
| "js_div (Num a) NegInf = Num 0"
| "js_div PosInf (Num b) = inf_of_sign (0 \<le> b)"
| "js_div NegInf (Num b) = inf_of_sign (b < 0)"
| "js_div PosInf PosInf = NaN"
| "js_div NegInf NegInf = NaN"
| "js_div PosInf NegInf = NaN"
| "js_div NegInf PosInf = NaN"

text \<open>\<open>Math.log10\<close>: the logarithm of zero is \<open>-Infinity\<close>, of a negative number \<open>NaN\<close>.\<close>

fun js_log10 :: "jsnum \<Rightarrow> jsnum" where
  "js_log10 (Num a) = (if a < 0 then NaN else if a = 0 then NegInf else Num (log 10 a))"
| "js_log10 PosInf = PosInf"
| "js_log10 NegInf = NaN"
| "js_log10 NaN = NaN"

text \<open>\<open>Math.min\<close> and \<open>Math.max\<close> of two arguments: \<open>NaN\<close> if either is \<open>NaN\<close>.\<close>

fun js_min :: "jsnum \<Rightarrow> jsnum \<Rightarrow> jsnum" where
  "js_min NaN _ = NaN"
| "js_min _ NaN = NaN"
| "js_min NegInf _ = NegInf"
| "js_min _ NegInf = NegInf"
| "js_min PosInf b = b"
| "js_min a PosInf = a"
| "js_min (Num a) (Num b) = Num (min a b)"

fun js_max :: "jsnum \<Rightarrow> jsnum \<Rightarrow> jsnum" where
  "js_max NaN _ = NaN"
| "js_max _ NaN = NaN"
| "js_max PosInf _ = PosInf"
| "js_max _ PosInf = PosInf"
| "js_max NegInf b = b"
| "js_max a NegInf = a"
| "js_max (Num a) (Num b) = Num (max a b)"

text \<open>\<open>Math.round\<close>: the nearest integer, a tie going up.\<close>

fun js_round :: "jsnum \<Rightarrow> jsnum" where
  "js_round (Num a) = Num (of_int \<lfloor>a + 1 / 2\<rfloor>)"
| "js_round PosInf = PosInf"
| "js_round NegInf = NegInf"
| "js_round NaN = NaN"

definition is_finite :: "jsnum \<Rightarrow> bool" where
  "is_finite v = (case v of Num _ \<Rightarrow> True | _ \<Rightarrow> False)"

section \<open>Reaction engine: \<open>calculateChemicalProperties\<close>\<close>

text \<open>
  \<open>VirtualLabApp.tsx\<close>, \<open>calculateChemicalProperties(chemical, amount, totalVolume)\<close>.
  Only \<open>chemical.id\<close> is read. The arguments \<open>amount\<close> and \<open>totalVolume\<close> are finite
  numbers; the results need not be.

  \<open>concentrations[chemical.id] || 0\<close> reads an object literal with the keys
  \<open>hcl\<close>, \<open>naoh\<close> and \<open>phenol\<close>. A key that the literal does not have but
  \<open>Object.prototype\<close> has yields a function or an object, which is truthy, and every
  product with it is \<open>NaN\<close>.
\<close>

definition concentrations :: "(string \<times> real) list" where
  "concentrations = [(''hcl'', 0.1), (''naoh'', 0.1), (''phenol'', 0)]"

definition object_prototype_keys :: "string list" where
  "object_prototype_keys =
     [''constructor'', ''hasOwnProperty'', ''isPrototypeOf'', ''propertyIsEnumerable'',
      ''toLocaleString'', ''toString'', ''valueOf'', ''__proto__'',
      ''__defineGetter__'', ''__defineSetter__'', ''__lookupGetter__'', ''__lookupSetter__'']"

definition concentration_of :: "string \<Rightarrow> jsnum" where
  "concentration_of cid =
     (case map_of concentrations cid of
        Some c \<Rightarrow> Num c
      | None \<Rightarrow> if cid \<in> set object_prototype_keys then NaN else Num 0)"

record ChemicalProperties =
  cp_molarity :: jsnum
  cp_moles :: jsnum
  cp_ph :: jsnum

definition calculateChemicalProperties :: "string \<Rightarrow> real \<Rightarrow> real \<Rightarrow> ChemicalProperties" where
  "calculateChemicalProperties cid amount totalVolume =
     (let molarity = concentration_of cid;
          volumeInL = js_div (Num amount) (Num 1000);
          moles = js_mul molarity volumeInL;
          ph = (if cid = ''hcl''
                then js_neg (js_log10 (js_mul molarity (js_div (Num amount) (Num totalVolume))))
                else if cid = ''naoh''
                then (let poh = js_neg (js_log10 (js_mul molarity (js_div (Num amount) (Num totalVolume))))
                      in js_sub (Num 14) poh)
                else Num 7)
      in \<lparr> cp_molarity = js_mul molarity (js_div (Num amount) (Num totalVolume)),
           cp_moles = moles,
           cp_ph = js_max (Num 0) (js_min (Num 14) ph) \<rparr>)"

section \<open>Strings\<close>

text \<open>
  Strings are lists of characters; the characters of the model are the code units
  below 256, which covers every identifier and colour literal of the source.
  \<open>s.substr(start, len)\<close> for a start and a length that are not negative:
\<close>

definition substr :: "string \<Rightarrow> nat \<Rightarrow> nat \<Rightarrow> string" where
  "substr s start len = take len (drop start s)"

text \<open>\<open>s.includes(t)\<close>: \<open>t\<close> occurs in \<open>s\<close> as a contiguous substring.\<close>

fun starts_with :: "string \<Rightarrow> string \<Rightarrow> bool" where
  "starts_with s [] = True"
| "starts_with [] (c # t) = False"
| "starts_with (d # s) (c # t) = (d = c \<and> starts_with s t)"

fun str_includes :: "string \<Rightarrow> string \<Rightarrow> bool" where
  "str_includes [] t = (t = [])"
| "str_includes (c # s) t = (starts_with (c # s) t \<or> str_includes s t)"

text \<open>
  \<open>parseInt(s, 16)\<close>: leading white space is skipped, then an optional sign, then an
  optional \<open>0x\<close> or \<open>0X\<close>, and the longest run of hexadecimal digits is the value;
  with no digit the result is \<open>NaN\<close>.
\<close>

definition is_white_space :: "char \<Rightarrow> bool" where
  "is_white_space c = ((of_char c :: nat) \<in> {9, 10, 11, 12, 13, 32, 160})"

definition hex_digit_value :: "char \<Rightarrow> nat option" where
  "hex_digit_value c =
     (let n = (of_char c :: nat)
      in if 48 \<le> n \<and> n \<le> 57 then Some (n - 48)
         else if 65 \<le> n \<and> n \<le> 70 then Some (n - 55)
         else if 97 \<le> n \<and> n \<le> 102 then Some (n - 87)
         else None)"

definition is_hex_digit :: "char \<Rightarrow> bool" where
  "is_hex_digit c = (hex_digit_value c \<noteq> None)"

definition hex_value :: "string \<Rightarrow> nat" where
  "hex_value ds =
     foldl (\<lambda>acc d. case hex_digit_value d of Some v \<Rightarrow> 16 * acc + v | None \<Rightarrow> acc) 0 ds"

definition strip_hex_prefix :: "string \<Rightarrow> string" where
  "strip_hex_prefix s = (if take 2 s = ''0x'' \<or> take 2 s = ''0X'' then drop 2 s else s)"

definition parseInt16 :: "string \<Rightarrow> jsnum" where
  "parseInt16 s =
     (let s1 = dropWhile is_white_space s;
          negative = (s1 \<noteq> [] \<and> hd s1 = CHR ''-'');
          s2 = (if s1 \<noteq> [] \<and> (hd s1 = CHR ''+'' \<or> hd s1 = CHR ''-'') then tl s1 else s1);
          z = takeWhile is_hex_digit (strip_hex_prefix s2)
      in if z = [] then NaN
         else if negative then Num (- real (hex_value z)) else Num (real (hex_value z)))"

text \<open>
  The string of a number inside a template literal. It is applied to results of
  \<open>Math.round\<close> only, which are integers, \<open>NaN\<close> or infinite. For an integer of
  magnitude up to \<open>2^53\<close> the decimal digits are what JavaScript prints. Above that
  not every integer is a double, and JavaScript prints the shortest digits that
  identify the double (padded with zeros, and in exponent notation from \<open>10^21\<close>
  on); rounding to doubles is outside this model of numbers, and so are those
  strings. A colour channel averaged from \<open>#RRGGBB\<close> literals with amounts that are
  not negative lies between 0 and 255.
\<close>

fun nat_digits :: "nat \<Rightarrow> string" where
  "nat_digits n =
     (if n < 10 then [''0123456789'' ! n]
      else nat_digits (n div 10) @ [''0123456789'' ! (n mod 10)])"

declare nat_digits.simps [simp del]

definition number_to_string :: "jsnum \<Rightarrow> string" where
  "number_to_string v =
     (case v of
        NaN \<Rightarrow> ''NaN''
      | PosInf \<Rightarrow> ''Infinity''
      | NegInf \<Rightarrow> ''-Infinity''
      | Num a \<Rightarrow> (if \<lfloor>a\<rfloor> < 0 then ''-'' @ nat_digits (nat (- \<lfloor>a\<rfloor>))
                  else nat_digits (nat \<lfloor>a\<rfloor>)))"

section \<open>Mixture model: \<open>getMixedColor\<close> and \<open>getSolutionHeight\<close>\<close>

text \<open>
  The \<open>Equipment\<close> component receives the chemicals of one apparatus, each
  \<open>{id, name, color, amount, concentration}\<close>, and \<open>titrationColorProgress\<close>.
  Amounts are finite numbers. \<open>chemicalIds.includes(x)\<close> is membership in the sorted
  list of identifiers.
\<close>

record ChemicalQuantity =
  chem_id :: string
  chem_name :: string
  chem_color :: string
  chem_amount :: real
  chem_concentration :: string

text \<open>The template literal \<open>`rgb(${r}, ${g}, ${b})`\<close>.\<close>

definition rgb_string :: "jsnum \<Rightarrow> jsnum \<Rightarrow> jsnum \<Rightarrow> string" where
  "rgb_string r g b =
     ''rgb('' @ number_to_string r @ '', '' @ number_to_string g @ '', '' @
     number_to_string b @ '')''"

text \<open>\<open>Math.round(startColor.c + (endColor.c - startColor.c) * easedProgress)\<close>.\<close>

definition blend_channel :: "real \<Rightarrow> real \<Rightarrow> real \<Rightarrow> jsnum" where
  "blend_channel startc endc easedProgress = js_round (Num (startc + (endc - startc) * easedProgress))"

text \<open>
  The body of the \<open>forEach\<close> of the default colour mixing: the accumulator is
  \<open>(r, g, b, totalAmount)\<close>. \<open>color.replace("#", "")\<close> removes the first \<open>#\<close>.
\<close>

definition mix_step :: "jsnum \<times> jsnum \<times> jsnum \<times> real \<Rightarrow> ChemicalQuantity \<Rightarrow> jsnum \<times> jsnum \<times> jsnum \<times> real" where
  "mix_step acc chemical =
     (case acc of (r, g, b, totalAmount) \<Rightarrow>
        (let color = chem_color chemical;
             amount = chem_amount chemical;
             hex = remove1 (CHR ''#'') color;
             rVal = parseInt16 (substr hex 0 2);
             gVal = parseInt16 (substr hex 2 2);
             bVal = parseInt16 (substr hex 4 2)
         in (js_add r (js_mul rVal (Num amount)),
             js_add g (js_mul gVal (Num amount)),
             js_add b (js_mul bVal (Num amount)),
             totalAmount + amount)))"

definition default_color_mixing :: "ChemicalQuantity list \<Rightarrow> string" where
  "default_color_mixing chemicals =
     (case foldl mix_step (Num 0, Num 0, Num 0, 0) chemicals of (r, g, b, totalAmount) \<Rightarrow>
        if totalAmount = 0 then ''transparent''
        else rgb_string (js_round (js_div r (Num totalAmount)))
                        (js_round (js_div g (Num totalAmount)))
                        (js_round (js_div b (Num totalAmount))))"

definition getMixedColor :: "ChemicalQuantity list \<Rightarrow> real \<Rightarrow> string" where
  "getMixedColor chemicals titrationColorProgress =
     (if length chemicals = 0 then ''transparent''
      else if length chemicals = 1 then chem_color (chemicals ! 0)
      else
        (let chemicalIds = sort (map chem_id chemicals)
         in if ''hcl'' \<in> set chemicalIds \<and> ''naoh'' \<in> set chemicalIds then
              (if ''phenol'' \<in> set chemicalIds then
                 (if titrationColorProgress > 0 then
                    (if titrationColorProgress \<le> 1 then
                       (let easedProgress =
                              titrationColorProgress * titrationColorProgress *
                              (3 - 2 * titrationColorProgress)
                        in rgb_string (blend_channel 255 255 easedProgress)
                                      (blend_channel 220 182 easedProgress)
                                      (blend_channel 230 193 easedProgress))
                     else
                       (let normalizedProgress = min ((titrationColorProgress - 1) / 2) 1;
                            easedProgress =
                              normalizedProgress * normalizedProgress *
                              (3 - 2 * normalizedProgress)
                        in rgb_string (blend_channel 255 199 easedProgress)
                                      (blend_channel 182 21 easedProgress)
                                      (blend_channel 193 133 easedProgress)))
                  else ''#FFB6C1'')
               else ''#E8F5E8'')
            else if ''phenol'' \<in> set chemicalIds \<and> ''naoh'' \<in> set chemicalIds then ''#FF69B4''
            else if ''hcl'' \<in> set chemicalIds \<and> ''phenol'' \<in> set chemicalIds \<and>
                    ''naoh'' \<notin> set chemicalIds then ''#ADD8E6''
            else default_color_mixing chemicals))"

text \<open>\<open>getSolutionHeight\<close>: the \<open>reduce\<close> is a left fold from 0.\<close>

definition getSolutionHeight :: "ChemicalQuantity list \<Rightarrow> real" where
  "getSolutionHeight chemicals =
     (let totalVolume = foldl (\<lambda>sum chemical. sum + chem_amount chemical) 0 chemicals
      in min 85 ((totalVolume / 100) * 85))"

section \<open>The state of \<open>VirtualLabApp\<close>\<close>

text \<open>
  \<open>VirtualLabApp\<close> is a React function component. Its state is the values of its
  \<open>useState\<close> hooks; its props \<open>experimentTitle\<close>, \<open>allSteps\<close> and \<open>stepNumber\<close>
  do not change during a run. The callback props (\<open>onProgressUpdate\<close>,
  \<open>onTimerReset\<close> and the like) report to the parent and do not touch this state;
  they are left out.
\<close>

record Props =
  experimentTitle :: string
  allStepsLength :: nat
  stepNumber :: int

record EquipmentPosition =
  eq_id :: string
  eq_x :: real
  eq_y :: real
  eq_chemicals :: "ChemicalQuantity list"

text \<open>
  A \<open>Result\<close> of the results log. Its \<open>id\<close> and \<open>timestamp\<close> (read from the clock) and
  its constant texts (description, equation, products, mechanism, thermodynamics) are
  left out.
\<close>

record Result =
  res_type :: string
  res_title :: string
  res_reactionType :: string
  res_volumeAdded :: real
  res_totalVolume :: real
  res_molarity :: real
  res_moles :: real
  res_ph :: real
  res_yield :: real

record Measurements =
  m_volume :: real
  m_concentration :: real
  m_ph :: real
  m_molarity :: real
  m_moles :: real
  m_temperature :: real

record Drop =
  drop_id :: string
  drop_x :: real
  drop_y :: real
  drop_color :: string

record DropwiseAnimation =
  da_active :: bool
  da_chemicalId :: string
  da_drops :: "Drop list"

text \<open>
  A handler is a closure of the render that created it: inside
  \<open>handleStartTitration\<close>, and inside every callback it schedules, the names
  \<open>isTitrating\<close>, \<open>cumulativeVolume\<close>, \<open>cumulativeColorIntensity\<close>, \<open>completedSteps\<close> and
  \<open>titrationDropCount\<close> are the constants of that render, whatever the state has
  become when the callback runs. \<open>startTime\<close> is the \<open>Date.now()\<close> of the call.
\<close>

record TitrationClosure =
  cl_isTitrating :: bool
  cl_cumulativeVolume :: real
  cl_cumulativeColorIntensity :: real
  cl_completedSteps :: "int list"
  cl_titrationDropCount :: nat
  cl_startTime :: real

text \<open>
  The callbacks that the handlers hand to \<open>setTimeout\<close>, \<open>setInterval\<close> and
  \<open>requestAnimationFrame\<close>. The delay is not part of the model: a pending callback
  may run at any later time.
\<close>

datatype callback =
    ClearToast
  | CompleteStep int string
  | AnimationFrame TitrationClosure
  | CycleClose TitrationClosure real real
  | DropInterval TitrationClosure real real
  | RemoveDrop string

record LabState =
  equipmentPositions :: "EquipmentPosition list"
  undoHistory :: "EquipmentPosition list list"
  selectedChemical :: "string option"
  isRunning :: bool
  results :: "Result list"
  currentStep :: int
  measurements :: Measurements
  toastMessage :: "string option"
  currentGuidedStep :: int
  dropwiseAnimation :: DropwiseAnimation
  isTitrating :: bool
  isStirring :: bool
  titrationDropCount :: nat
  stirrerActive :: bool
  titrationColorProgress :: real
  cumulativeVolume :: real
  cumulativeColorIntensity :: real
  completedSteps :: "int list"
  hasCalculatedResult :: bool
  showResultsPanel :: bool
  pending :: "callback list"

text \<open>The initial values of the \<open>useState\<close> hooks.\<close>

definition initial_measurements :: Measurements where
  "initial_measurements =
     \<lparr> m_volume = 0, m_concentration = 0, m_ph = 7, m_molarity = 0, m_moles = 0,
       m_temperature = 25 \<rparr>"

definition no_dropwiseAnimation :: DropwiseAnimation where
  "no_dropwiseAnimation = \<lparr> da_active = False, da_chemicalId = [], da_drops = [] \<rparr>"

definition initial_state :: "Props \<Rightarrow> LabState" where
  "initial_state props =
     \<lparr> equipmentPositions = [], undoHistory = [], selectedChemical = None,
       isRunning = False, results = [], currentStep = stepNumber props,
       measurements = initial_measurements, toastMessage = None, currentGuidedStep = 1,
       dropwiseAnimation = no_dropwiseAnimation, isTitrating = False, isStirring = False,
       titrationDropCount = 0, stirrerActive = False, titrationColorProgress = 0,
       cumulativeVolume = 5.0, cumulativeColorIntensity = 0, completedSteps = [],
       hasCalculatedResult = False, showResultsPanel = False, pending = [] \<rparr>"

definition schedule :: "callback \<Rightarrow> LabState \<Rightarrow> LabState" where
  "schedule cb s = s\<lparr>pending := pending s @ [cb]\<rparr>"

section \<open>Step tracker\<close>

text \<open>
  \<open>completedSteps\<close> is a \<open>Set<number>\<close>: the list of its elements in insertion
  order. \<open>new Set(array)\<close> adds the elements of the array one by one, and adding an
  element that is present changes nothing.
\<close>

definition set_add :: "int list \<Rightarrow> int \<Rightarrow> int list" where
  "set_add xs x = (if x \<in> set xs then xs else xs @ [x])"

definition new_Set :: "int list \<Rightarrow> int list" where
  "new_Set array = foldl set_add [] array"

text \<open>
  \<open>markStepCompleted(stepNumber, message)\<close> tests the \<open>completedSteps\<close> of the render
  that created it (the argument \<open>captured\<close>) and defers the update with
  \<open>setTimeout(..., 0)\<close>. The deferred update reads the state of the moment it runs.
  The toast texts of the model are the source's without their leading emoji.
\<close>

definition markStepCompleted :: "Props \<Rightarrow> int list \<Rightarrow> int \<Rightarrow> string \<Rightarrow> LabState \<Rightarrow> LabState" where
  "markStepCompleted props captured stepNo message s =
     (if str_includes (experimentTitle props) ''Acid-Base'' \<and> stepNo \<notin> set captured
      then schedule (CompleteStep stepNo message) s
      else s)"

definition step_toast :: "int \<Rightarrow> string \<Rightarrow> string" where
  "step_toast stepNo message =
     ''Step '' @ number_to_string (Num (of_int stepNo)) @ '' completed: '' @ message"

definition run_CompleteStep :: "int \<Rightarrow> string \<Rightarrow> LabState \<Rightarrow> LabState" where
  "run_CompleteStep stepNo message s =
     schedule ClearToast
       (s\<lparr> completedSteps := new_Set (completedSteps s @ [stepNo]),
           toastMessage := Some (step_toast stepNo message) \<rparr>)"

section \<open>Titration animator\<close>

text \<open>\<open>array.find(pred)\<close> is \<open>List.find\<close>; \<open>array.some(pred)\<close> is \<open>list_ex\<close>.\<close>

definition find_equipment :: "string \<Rightarrow> EquipmentPosition list \<Rightarrow> EquipmentPosition option" where
  "find_equipment name positions = List.find (\<lambda>pos. eq_id pos = name) positions"

definition has_chemical :: "string \<Rightarrow> ChemicalQuantity list \<Rightarrow> bool" where
  "has_chemical cid chemicals = list_ex (\<lambda>c. chem_id c = cid) chemicals"

definition warn_toast :: "string \<Rightarrow> LabState \<Rightarrow> LabState" where
  "warn_toast message s = schedule ClearToast (s\<lparr>toastMessage := Some message\<rparr>)"

definition naoh_for_flask :: "real \<Rightarrow> ChemicalQuantity" where
  "naoh_for_flask amount =
     \<lparr> chem_id = ''naoh'', chem_name = ''Sodium Hydroxide'', chem_color = ''transparent'',
       chem_amount = amount, chem_concentration = ''0.1 M'' \<rparr>"

definition initialResult :: Result where
  "initialResult =
     \<lparr> res_type = ''success'', res_title = ''Titration Analysis Started'',
       res_reactionType = ''Acid-Base Titration - Initial Analysis'',
       res_volumeAdded = 5.0, res_totalVolume = 30.0, res_molarity = 0.1,
       res_moles = 0.0005, res_ph = 6.5, res_yield = 20 \<rparr>"

text \<open>
  The closure of a call at time \<open>now\<close> from the render in state \<open>s\<close>.
  \<open>handleStartTitration\<close> is memoised by \<open>useCallback\<close> on \<open>equipmentPositions\<close>,
  \<open>markStepCompleted\<close>, \<open>isTitrating\<close>, \<open>isStirring\<close>, \<open>cumulativeVolume\<close>,
  \<open>cumulativeColorIntensity\<close> and \<open>completedSteps\<close>, so these are the values of the
  current render. \<open>titrationDropCount\<close> is not among the dependencies: the count that
  \<open>startDropwiseAnimation\<close> reads is that of the render that last re-created the
  handler, which may be older than the state. It is the argument \<open>heldDropCount\<close>.
\<close>

definition closure_of :: "real \<Rightarrow> nat \<Rightarrow> LabState \<Rightarrow> TitrationClosure" where
  "closure_of now heldDropCount s =
     \<lparr> cl_isTitrating = isTitrating s,
       cl_cumulativeVolume = cumulativeVolume s,
       cl_cumulativeColorIntensity = cumulativeColorIntensity s,
       cl_completedSteps = completedSteps s,
       cl_titrationDropCount = heldDropCount,
       cl_startTime = now \<rparr>"

text \<open>
  \<open>handleStartTitration\<close>, called from the render in state \<open>s\<close> at time \<open>now\<close>, with
  the drop count that the memoised handler holds. The
  state updates of one handler are applied together; where a setter is called more
  than once the last call decides (\<open>setToastMessage\<close>).
\<close>

definition add_naoh_to_flask :: "EquipmentPosition list \<Rightarrow> EquipmentPosition list" where
  "add_naoh_to_flask prev =
     map (\<lambda>pos. if eq_id pos = ''conical_flask''
                then pos\<lparr>eq_chemicals := eq_chemicals pos @ [naoh_for_flask 1.0]\<rparr>
                else pos) prev"

definition handleStartTitration :: "Props \<Rightarrow> real \<Rightarrow> nat \<Rightarrow> LabState \<Rightarrow> LabState" where
  "handleStartTitration props now heldDropCount s =
     (let burette = find_equipment ''burette'' (equipmentPositions s);
          conicalFlask = find_equipment ''conical_flask'' (equipmentPositions s);
          stirrer = find_equipment ''magnetic_stirrer'' (equipmentPositions s)
      in case (burette, conicalFlask) of
           (None, _) \<Rightarrow> warn_toast ''Please place both burette and conical flask first!'' s
         | (Some b, None) \<Rightarrow> warn_toast ''Please place both burette and conical flask first!'' s
         | (Some b, Some f) \<Rightarrow>
             if \<not> has_chemical ''naoh'' (eq_chemicals b)
             then warn_toast ''Please add NaOH to the burette first!'' s
             else
               (let s1 = s\<lparr>isTitrating := True, showResultsPanel := True\<rparr>;
                    s2 = markStepCompleted props (completedSteps s) 4 ''Initial titration started'' s1;
                    s3 = (if stirrer \<noteq> None \<and> \<not> isStirring s
                          then s2\<lparr>isStirring := True, stirrerActive := True,
                                  toastMessage := Some ''Starting titration with automatic stirring - NaOH added to flask!''\<rparr>
                          else s2\<lparr>toastMessage := Some ''Starting titration - NaOH added to conical flask!''\<rparr>);
                    s4 = schedule ClearToast s3;
                    s5 = (if \<not> has_chemical ''naoh'' (eq_chemicals f)
                          then s4\<lparr>equipmentPositions := add_naoh_to_flask (equipmentPositions s4)\<rparr>
                          else s4);
                    s6 = s5\<lparr>results := results s5 @ [initialResult],
                            toastMessage := Some ''Analysis Panel opened - Monitoring titration progress''\<rparr>;
                    s7 = schedule ClearToast s6;
                    s8 = s7\<lparr>titrationColorProgress := 0\<rparr>;
                    s9 = schedule (AnimationFrame (closure_of now heldDropCount s)) s8
                in schedule (DropInterval (closure_of now heldDropCount s) (eq_x b) (eq_y b)) s9))"

text \<open>
  \<open>animateColor\<close>, the animation frame of one titration cycle, run at time \<open>now\<close> with
  the closure of the \<open>handleStartTitration\<close> call that defined it.
\<close>

definition easing :: "real \<Rightarrow> real" where
  "easing progress =
     (if progress < 0.5 then 2 * progress * progress
      else 1 - (- 2 * progress + 2) ^ 3 / 2)"

definition set_naoh_amount :: "real \<Rightarrow> EquipmentPosition list \<Rightarrow> EquipmentPosition list" where
  "set_naoh_amount currentAmount prev =
     map (\<lambda>pos. if eq_id pos = ''conical_flask''
                then pos\<lparr>eq_chemicals :=
                           map (\<lambda>chemical. if chem_id chemical = ''naoh''
                                           then chemical\<lparr>chem_amount := currentAmount\<rparr>
                                           else chemical) (eq_chemicals pos)\<rparr>
                else pos) prev"

definition animateColor :: "Props \<Rightarrow> TitrationClosure \<Rightarrow> real \<Rightarrow> LabState \<Rightarrow> LabState" where
  "animateColor props cl now s =
     (let elapsed = now - cl_startTime cl;
          duration = 8000;
          progress = min (elapsed / duration) 1;
          easedProgress = easing progress;
          currentColorIntensity = cl_cumulativeColorIntensity cl + easedProgress;
          s1 = s\<lparr>titrationColorProgress := currentColorIntensity\<rparr>;
          volumeIncrease = progress * 20.0;
          currentVolume = cl_cumulativeVolume cl + volumeIncrease;
          s2 = s1\<lparr>measurements := (measurements s1)
                     \<lparr> m_volume := currentVolume,
                       m_ph := 6.5 + progress * 2.8,
                       m_molarity := 0.1 - progress * 0.05,
                       m_moles := (currentVolume / 1000) * 0.1 \<rparr>\<rparr>;
          currentAmount = 1.0 + progress * 2.0;
          s3 = s2\<lparr>equipmentPositions := set_naoh_amount currentAmount (equipmentPositions s2)\<rparr>;
          s4 = (if easedProgress \<ge> 0.3 \<and> 5 \<notin> set (cl_completedSteps cl)
                then markStepCompleted props (cl_completedSteps cl) 5
                       ''Endpoint identified - solution turned pink'' s3
                else s3);
          s5 = (if progress \<ge> 1
                then schedule (CycleClose cl currentVolume currentColorIntensity) s4
                else s4)
      in if progress < 1 then schedule (AnimationFrame cl) s5 else s5)"

text \<open>
  The callback that \<open>animateColor\<close> schedules with \<open>setTimeout(..., 1000)\<close> when the
  progress has reached 1. Its \<open>isTitrating\<close> and \<open>cumulativeColorIntensity\<close> are those
  of the closure.
\<close>

definition titrationResult :: "TitrationClosure \<Rightarrow> real \<Rightarrow> Result" where
  "titrationResult cl currentVolume =
     \<lparr> res_type = (if cl_cumulativeColorIntensity cl > 1 then ''warning'' else ''success''),
       res_title = (if cl_cumulativeColorIntensity cl > 1 then ''Over-Titration Detected''
                    else ''Acid-Base Titration Cycle Complete''),
       res_reactionType = ''Acid-Base Titration Complete'',
       res_volumeAdded = currentVolume - 5.0, res_totalVolume = currentVolume,
       res_molarity = 0.1, res_moles = 0.0025, res_ph = 8.3, res_yield = 100 \<rparr>"

definition run_CycleClose :: "TitrationClosure \<Rightarrow> real \<Rightarrow> real \<Rightarrow> LabState \<Rightarrow> LabState" where
  "run_CycleClose cl currentVolume currentColorIntensity s =
     (if cl_isTitrating cl
      then schedule ClearToast
             (s\<lparr> cumulativeVolume := currentVolume,
                 cumulativeColorIntensity := currentColorIntensity,
                 isTitrating := False,
                 dropwiseAnimation := no_dropwiseAnimation,
                 results := results s @ [titrationResult cl currentVolume],
                 toastMessage := Some ''Endpoint reached! Results Panel opened automatically.'' \<rparr>)
      else s)"

definition handleStopTitration :: "LabState \<Rightarrow> LabState" where
  "handleStopTitration s =
     (let s1 = s\<lparr>isTitrating := False, dropwiseAnimation := no_dropwiseAnimation\<rparr>;
          s2 = (if isStirring s
                then s1\<lparr>isStirring := False, stirrerActive := False,
                        toastMessage := Some ''Titration stopped - Stirring automatically stopped''\<rparr>
                else s1\<lparr>toastMessage := Some ''Titration stopped''\<rparr>)
      in schedule ClearToast s2)"

text \<open>
  The Start/Stop button: \<open>onClick={isTitrating ? handleStopTitration : handleStartTitration}\<close>.
\<close>

definition titrationButtonClick :: "Props \<Rightarrow> real \<Rightarrow> nat \<Rightarrow> LabState \<Rightarrow> LabState" where
  "titrationButtonClick props now heldDropCount s =
     (if isTitrating s then handleStopTitration s
      else handleStartTitration props now heldDropCount s)"

text \<open>
  \<open>startDropwiseAnimation\<close>: the callback of \<open>setInterval(..., 800)\<close>. It tests the
  \<open>isTitrating\<close> of its closure and clears the interval when that is false; otherwise
  it emits a drop and stays armed. \<open>dropId\<close> is built from the clock and a random
  number and is an argument here.
\<close>

definition drip_into_flask :: "EquipmentPosition list \<Rightarrow> EquipmentPosition list" where
  "drip_into_flask prev =
     map (\<lambda>pos. if eq_id pos = ''conical_flask''
                then (if has_chemical ''naoh'' (eq_chemicals pos)
                      then pos\<lparr>eq_chemicals :=
                                 map (\<lambda>c. if chem_id c = ''naoh''
                                          then c\<lparr>chem_amount := chem_amount c + 0.1\<rparr> else c)
                                     (eq_chemicals pos)\<rparr>
                      else pos\<lparr>eq_chemicals := eq_chemicals pos @ [naoh_for_flask 0.1]\<rparr>)
                else pos) prev"

definition run_DropInterval :: "TitrationClosure \<Rightarrow> real \<Rightarrow> real \<Rightarrow> string \<Rightarrow> LabState \<Rightarrow> LabState" where
  "run_DropInterval cl bx by dropId s =
     (if \<not> cl_isTitrating cl then s
      else
        (let newDrop = \<lparr> drop_id = dropId, drop_x = bx, drop_y = by + 50,
                          drop_color = ''transparent'' \<rparr>;
             s1 = s\<lparr>dropwiseAnimation :=
                      \<lparr> da_active = True, da_chemicalId = ''naoh'',
                        da_drops = da_drops (dropwiseAnimation s) @ [newDrop] \<rparr>\<rparr>;
             s2 = s1\<lparr>titrationDropCount := titrationDropCount s1 + 1\<rparr>;
             s3 = (if cl_titrationDropCount cl mod 10 = 0
                   then s2\<lparr>equipmentPositions := drip_into_flask (equipmentPositions s2)\<rparr>
                   else s2);
             s4 = schedule (RemoveDrop dropId) s3
         in schedule (DropInterval cl bx by) s4))"

definition run_RemoveDrop :: "string \<Rightarrow> LabState \<Rightarrow> LabState" where
  "run_RemoveDrop dropId s =
     s\<lparr>dropwiseAnimation := (dropwiseAnimation s)
          \<lparr>da_drops := filter (\<lambda>d. drop_id d \<noteq> dropId) (da_drops (dropwiseAnimation s))\<rparr>\<rparr>"

section \<open>Reset\<close>

text \<open>
  The \<open>onReset\<close> handler of the controls. It cancels no timer and no animation frame:
  the pending callbacks stay pending.
\<close>

definition onReset :: "Props \<Rightarrow> LabState \<Rightarrow> LabState" where
  "onReset props s =
     schedule ClearToast
       (s\<lparr> equipmentPositions := [], undoHistory := [], results := [], isRunning := False,
           currentStep := stepNumber props, selectedChemical := None,
           measurements := initial_measurements, currentGuidedStep := 1,
           dropwiseAnimation := no_dropwiseAnimation,
           isTitrating := False, isStirring := False, stirrerActive := False,
           titrationDropCount := 0, titrationColorProgress := 0,
           cumulativeVolume := 5.0, cumulativeColorIntensity := 0,
           completedSteps := [], hasCalculatedResult := False, showResultsPanel := False,
           toastMessage := Some ''Experiment reset successfully!'' \<rparr>)"

section \<open>Running the component\<close>

text \<open>
  Running a pending callback takes it off the queue (the interval re-arms itself in
  \<open>run_DropInterval\<close>). The clock and the drop identifier come from the environment.
\<close>

fun run_callback :: "Props \<Rightarrow> real \<Rightarrow> string \<Rightarrow> callback \<Rightarrow> LabState \<Rightarrow> LabState" where
  "run_callback props now dropId ClearToast s = s\<lparr>toastMessage := None\<rparr>"
| "run_callback props now dropId (CompleteStep stepNo message) s = run_CompleteStep stepNo message s"
| "run_callback props now dropId (AnimationFrame cl) s = animateColor props cl now s"
| "run_callback props now dropId (CycleClose cl v c) s = run_CycleClose cl v c s"
| "run_callback props now dropId (DropInterval cl bx by) s = run_DropInterval cl bx by dropId s"
| "run_callback props now dropId (RemoveDrop d) s = run_RemoveDrop d s"

definition fire :: "Props \<Rightarrow> real \<Rightarrow> string \<Rightarrow> nat \<Rightarrow> LabState \<Rightarrow> LabState" where
  "fire props now dropId i s =
     (if i < length (pending s)
      then run_callback props now dropId (pending s ! i)
             (s\<lparr>pending := take i (pending s) @ drop (Suc i) (pending s)\<rparr>)
      else s)"

text \<open>
  The events of a run: the user's clicks, a call of \<open>markStepCompleted\<close> by any other
  handler of the render, and the browser running a pending callback. Each event
  comes with the clock reading and the drop identifier of its moment; a click on the
  titration button carries the drop count that the memoised handler holds.
\<close>

datatype event =
    ClickTitrationButton nat
  | ClickReset
  | MarkStep int string
  | RunPending nat

definition step :: "Props \<Rightarrow> real \<Rightarrow> string \<Rightarrow> event \<Rightarrow> LabState \<Rightarrow> LabState" where
  "step props now dropId e s =
     (case e of
        ClickTitrationButton heldDropCount \<Rightarrow> titrationButtonClick props now heldDropCount s
      | ClickReset \<Rightarrow> onReset props s
      | MarkStep stepNo message \<Rightarrow> markStepCompleted props (completedSteps s) stepNo message s
      | RunPending i \<Rightarrow> fire props now dropId i s)"

fun run :: "Props \<Rightarrow> (real \<times> string \<times> event) list \<Rightarrow> LabState \<Rightarrow> LabState" where
  "run props [] s = s"
| "run props ((now, dropId, e) # es) s = run props es (step props now dropId e s)"

section \<open>Notions used in the statements\<close>

text \<open>A pH is in range when it is a finite number between 0 and 14.\<close>

definition ph_in_range :: "jsnum \<Rightarrow> bool" where
  "ph_in_range v = (case v of Num p \<Rightarrow> 0 \<le> p \<and> p \<le> 14 | _ \<Rightarrow> False)"

text \<open>
  A colour literal \<open>#RRGGBB\<close>, its three channels, and the amount-weighted average
  of a channel over a mixture.
\<close>

fun hex_color :: "string \<Rightarrow> bool" where
  "hex_color [h, r1, r2, g1, g2, b1, b2] =
     (h = CHR ''#'' \<and> is_hex_digit r1 \<and> is_hex_digit r2 \<and> is_hex_digit g1 \<and>
      is_hex_digit g2 \<and> is_hex_digit b1 \<and> is_hex_digit b2)"
| "hex_color _ = False"

definition red_channel :: "string \<Rightarrow> real" where
  "red_channel color = real (hex_value (take 2 (drop 1 color)))"

definition green_channel :: "string \<Rightarrow> real" where
  "green_channel color = real (hex_value (take 2 (drop 3 color)))"

definition blue_channel :: "string \<Rightarrow> real" where
  "blue_channel color = real (hex_value (take 2 (drop 5 color)))"

definition total_amount :: "ChemicalQuantity list \<Rightarrow> real" where
  "total_amount cs = (\<Sum>c\<leftarrow>cs. chem_amount c)"

definition weighted_average :: "(string \<Rightarrow> real) \<Rightarrow> ChemicalQuantity list \<Rightarrow> real" where
  "weighted_average channel cs =
     (\<Sum>c\<leftarrow>cs. channel (chem_color c) * chem_amount c) / total_amount cs"

text \<open>A colour channel as CSS takes it: an integer from 0 to 255.\<close>

definition is_byte :: "jsnum \<Rightarrow> bool" where
  "is_byte v = (case v of Num a \<Rightarrow> 0 \<le> a \<and> a \<le> 255 \<and> a = of_int \<lfloor>a\<rfloor> | _ \<Rightarrow> False)"

text \<open>No row of the priority table of \<open>getMixedColor\<close> matches the mixture.\<close>

definition no_special_case :: "ChemicalQuantity list \<Rightarrow> bool" where
  "no_special_case cs =
     (let ids = map chem_id cs
      in \<not> (''hcl'' \<in> set ids \<and> ''naoh'' \<in> set ids) \<and>
         \<not> (''phenol'' \<in> set ids \<and> ''naoh'' \<in> set ids) \<and>
         \<not> (''hcl'' \<in> set ids \<and> ''phenol'' \<in> set ids \<and> ''naoh'' \<notin> set ids))"

text \<open>What \<open>handleStartTitration\<close> reads of the workbench.\<close>

definition burette_of :: "LabState \<Rightarrow> EquipmentPosition option" where
  "burette_of s = find_equipment ''burette'' (equipmentPositions s)"

definition has_flask :: "LabState \<Rightarrow> bool" where
  "has_flask s = (find_equipment ''conical_flask'' (equipmentPositions s) \<noteq> None)"

definition can_start :: "LabState \<Rightarrow> bool" where
  "can_start s =
     (case burette_of s of
        Some b \<Rightarrow> has_flask s \<and> has_chemical ''naoh'' (eq_chemicals b)
      | None \<Rightarrow> False)"

text \<open>The progress that \<open>animateColor\<close> computes at time \<open>now\<close>.\<close>

definition progress_at :: "TitrationClosure \<Rightarrow> real \<Rightarrow> real" where
  "progress_at cl now = min ((now - cl_startTime cl) / 8000) 1"

text \<open>
  The animations in flight: every running \<open>animateColor\<close> loop has exactly one
  animation frame pending.
\<close>

definition is_AnimationFrame :: "callback \<Rightarrow> bool" where
  "is_AnimationFrame cb = (case cb of AnimationFrame _ \<Rightarrow> True | _ \<Rightarrow> False)"

definition frames_in_flight :: "LabState \<Rightarrow> nat" where
  "frames_in_flight s = length (filter is_AnimationFrame (pending s))"

text \<open>
  A pending callback whose closure was made in a render with \<open>isTitrating = false\<close>,
  and the state in which every pending callback is such.
\<close>

fun closure_idle :: "callback \<Rightarrow> bool" where
  "closure_idle (AnimationFrame cl) = (\<not> cl_isTitrating cl)"
| "closure_idle (CycleClose cl v c) = (\<not> cl_isTitrating cl)"
| "closure_idle (DropInterval cl bx by) = (\<not> cl_isTitrating cl)"
| "closure_idle ClearToast = True"
| "closure_idle (CompleteStep n msg) = True"
| "closure_idle (RemoveDrop d) = True"

definition idle_closures :: "LabState \<Rightarrow> bool" where
  "idle_closures s = list_all closure_idle (pending s)"

definition cumulative_of :: "LabState \<Rightarrow> real \<times> real" where
  "cumulative_of s = (cumulativeVolume s, cumulativeColorIntensity s)"

subsection \<open>Concrete inputs\<close>

definition titration_props :: Props where
  "titration_props =
     \<lparr> experimentTitle = ''Acid-Base Titration'', allStepsLength = 6, stepNumber = 1 \<rparr>"

definition naoh_drop :: ChemicalQuantity where
  "naoh_drop = \<lparr> chem_id = ''naoh'', chem_name = ''Sodium Hydroxide'', chem_color = ''#8B5A9B'',
                 chem_amount = 50, chem_concentration = ''0.1 M'' \<rparr>"

definition hcl_drop :: ChemicalQuantity where
  "hcl_drop = \<lparr> chem_id = ''hcl'', chem_name = ''Hydrochloric Acid'', chem_color = ''#FFE135'',
                chem_amount = 25, chem_concentration = ''0.1 M'' \<rparr>"

definition phenol_drop :: ChemicalQuantity where
  "phenol_drop = \<lparr> chem_id = ''phenol'', chem_name = ''Phenolphthalein'', chem_color = ''#FFB6C1'',
                   chem_amount = 10, chem_concentration = ''Indicator'' \<rparr>"

definition the_burette :: EquipmentPosition where
  "the_burette = \<lparr> eq_id = ''burette'', eq_x = 300, eq_y = 100, eq_chemicals = [naoh_drop] \<rparr>"

definition empty_burette :: EquipmentPosition where
  "empty_burette = \<lparr> eq_id = ''burette'', eq_x = 300, eq_y = 100, eq_chemicals = [] \<rparr>"

definition the_flask :: EquipmentPosition where
  "the_flask = \<lparr> eq_id = ''conical_flask'', eq_x = 300, eq_y = 300,
                 eq_chemicals = [hcl_drop, phenol_drop] \<rparr>"

text \<open>The workbench set up for a titration, nothing started yet.\<close>

definition ready_state :: LabState where
  "ready_state = (initial_state titration_props)\<lparr>equipmentPositions := [the_burette, the_flask]\<rparr>"

definition unfilled_state :: LabState where
  "unfilled_state = (initial_state titration_props)\<lparr>equipmentPositions := [empty_burette, the_flask]\<rparr>"

text \<open>The state right after a click on Start Titration at time 0.\<close>

definition titrating_state :: LabState where
  "titrating_state = titrationButtonClick titration_props 0 0 ready_state"

text \<open>
  Two titration cycles back to back, every callback run in the order of its delay:
  start; the deferred update of step 4; the first tick of the drop interval; the three
  toast timers; the animation frame at 8000 ms, where the progress is 1; the deferred
  update of step 5; the cycle-close timeout at 9000 ms; a click on the button, which
  still reads Stop Titration; a click on Start Titration at 10000 ms; the frame at
  18000 ms; the cycle-close timeout at 19000 ms. The frames in between repeat the
  frame and change no cumulative value; they are left out.
\<close>

definition two_cycles :: "(real \<times> string \<times> event) list" where
  "two_cycles =
     [(0, [], ClickTitrationButton 0), (0, [], RunPending 0), (800, ''d1'', RunPending 3),
      (3000, [], RunPending 0), (3000, [], RunPending 0), (3000, [], RunPending 1),
      (8000, [], RunPending 0), (8000, [], RunPending 0), (9000, [], RunPending 0),
      (9500, [], ClickTitrationButton 0), (10000, [], ClickTitrationButton 0),
      (18000, [], RunPending 4), (19000, [], RunPending 5)]"

definition black_chemical :: ChemicalQuantity where
  "black_chemical = \<lparr> chem_id = ''a'', chem_name = ''A'', chem_color = ''#000000'',
                      chem_amount = 10, chem_concentration = ''1 M'' \<rparr>"

definition white_chemical :: ChemicalQuantity where
  "white_chemical = \<lparr> chem_id = ''b'', chem_name = ''B'', chem_color = ''#FFFFFF'',
                      chem_amount = 10, chem_concentration = ''1 M'' \<rparr>"

text \<open>
  Two chemicals of the registry of the aspirin synthesis, with their default volumes:
  salicylic acid and distilled water, whose colour is the keyword \<open>transparent\<close>.
\<close>

definition salicylic_acid_drop :: ChemicalQuantity where
  "salicylic_acid_drop =
     \<lparr> chem_id = ''salicylic_acid'', chem_name = ''Salicylic Acid'', chem_color = ''#F8F8FF'',
       chem_amount = 25, chem_concentration = ''2.0 g'' \<rparr>"

definition distilled_water_drop :: ChemicalQuantity where
  "distilled_water_drop =
     \<lparr> chem_id = ''distilled_water'', chem_name = ''Distilled Water'',
       chem_color = ''transparent'', chem_amount = 100, chem_concentration = ''Pure'' \<rparr>"

text \<open>
  One titration cycle up to its second animation frame past the endpoint threshold,
  every callback run in the order of its delay: start; the deferred update of step 4;
  the first tick of the drop interval; the three toast timers at 3000 ms; the
  animation frame at 4000 ms (progress 1/2, eased progress 1/2); the deferred update of
  step 5; the timer of its toast at 7000 ms; the animation frame at 7000 ms (progress
  7/8); the deferred update that this frame schedules. The frames in between do what
  these two do; they are left out.
\<close>

definition duplicate_run :: "(real \<times> string \<times> event) list" where
  "duplicate_run =
     [(0, [], ClickTitrationButton 0), (0, [], RunPending 0), (800, ''d1'', RunPending 3),
      (3000, [], RunPending 0), (3000, [], RunPending 0), (3000, [], RunPending 1),
      (4000, [], RunPending 0), (4000, [], RunPending 0), (7000, [], RunPending 1),
      (7000, [], RunPending 0), (7000, [], RunPending 0)]"

text \<open>What an operation does to the part of the state that the claims are about.\<close>

named_theorems obs

section \<open>Reaction engine: properties\<close>

lemma concentration_of_acid_base:
  "concentration_of ''hcl'' = Num (1 / 10)" "concentration_of ''naoh'' = Num (1 / 10)"
  by (simp_all add: concentration_of_def concentrations_def)

lemma concentration_of_cases:
  "concentration_of cid = Num (1 / 10) \<or> concentration_of cid = Num 0 \<or> concentration_of cid = NaN"
  by (simp add: concentration_of_def concentrations_def)

lemma clamp_acid:
  "0 \<le> x \<Longrightarrow> ph_in_range (js_max (Num 0) (js_min (Num 14) (js_neg (js_log10 (Num x)))))"
  by (simp add: ph_in_range_def min_def max_def)

lemma clamp_base:
  "0 \<le> x \<Longrightarrow>
   ph_in_range (js_max (Num 0) (js_min (Num 14) (js_sub (Num 14) (js_neg (js_log10 (Num x))))))"
  by (simp add: ph_in_range_def min_def max_def js_sub_def)

text \<open>
  Claim C2, as stated: with a total volume of zero the computation is guarded and
  returns pH 7 and molarity 0. The function has no such guard. For 10 mL of
  \<open>hcl\<close> in a total volume of 0 the quotient \<open>amount / totalVolume\<close> is \<open>Infinity\<close>, the
  molarity returned is \<open>Infinity\<close> and the pH is clamped to 0.
\<close>

theorem C2_counterexample:
  "cp_ph (calculateChemicalProperties ''hcl'' 10 0) = Num 0 \<and>
   cp_molarity (calculateChemicalProperties ''hcl'' 10 0) = PosInf"
  by (simp add: calculateChemicalProperties_def concentration_of_acid_base inf_of_sign_def)

text \<open>
  Claim C2, amended: \<open>calculateChemicalProperties\<close> divides by the total volume
  without a guard. With a total volume of zero the molarity it returns is never a
  finite number (so never 0), and the pH is 7 for a chemical other than \<open>hcl\<close> and
  \<open>naoh\<close> only: for \<open>hcl\<close> it is 0 and for \<open>naoh\<close> it is 14 when the amount is
  positive, and \<open>NaN\<close> otherwise. (The zero is the positive zero: the caller passes a
  sum that \<open>reduce\<close> starts from 0.)
\<close>

theorem C2_zero_volume_unguarded:
  "\<not> is_finite (cp_molarity (calculateChemicalProperties cid amount 0)) \<and>
   cp_ph (calculateChemicalProperties cid amount 0) =
     (if cid = ''hcl'' then (if 0 < amount then Num 0 else NaN)
      else if cid = ''naoh'' then (if 0 < amount then Num 14 else NaN)
      else Num 7)"
proof
  show "\<not> is_finite (cp_molarity (calculateChemicalProperties cid amount 0))"
    using concentration_of_cases[of cid]
    by (auto simp: calculateChemicalProperties_def Let_def is_finite_def inf_of_sign_def)
  show "cp_ph (calculateChemicalProperties cid amount 0) =
     (if cid = ''hcl'' then (if 0 < amount then Num 0 else NaN)
      else if cid = ''naoh'' then (if 0 < amount then Num 14 else NaN)
      else Num 7)"
    by (auto simp: calculateChemicalProperties_def Let_def inf_of_sign_def
          concentration_of_acid_base js_sub_def)
qed

text \<open>
  Claim C10, as stated: for every chemical and every amount with a strictly positive
  total volume the pH returned lies in [0, 14]. For a negative amount of \<open>hcl\<close> the
  argument of \<open>Math.log10\<close> is negative, the logarithm is \<open>NaN\<close>, and \<open>Math.min\<close> and
  \<open>Math.max\<close> pass \<open>NaN\<close> on: the pH returned is \<open>NaN\<close>.
\<close>

theorem C10_counterexample:
  "(0::real) < 10 \<and> cp_ph (calculateChemicalProperties ''hcl'' (- 1) 10) = NaN \<and>
   \<not> ph_in_range (cp_ph (calculateChemicalProperties ''hcl'' (- 1) 10))"
  by (simp add: calculateChemicalProperties_def concentration_of_acid_base ph_in_range_def)

text \<open>
  Claim C10, amended: for every chemical, every amount that is not negative and every
  strictly positive total volume, the pH returned by \<open>calculateChemicalProperties\<close> is
  a finite number in the closed interval [0, 14].
\<close>

theorem C10_ph_in_range:
  assumes "0 \<le> amount" and "0 < totalVolume"
  shows "ph_in_range (cp_ph (calculateChemicalProperties cid amount totalVolume))"
proof -
  have nn: "0 \<le> (1 / 10) * (amount / totalVolume)" using assms by simp
  consider "cid = ''hcl''" | "cid = ''naoh''" | "cid \<noteq> ''hcl''" "cid \<noteq> ''naoh''" by blast
  then show ?thesis
  proof cases
    case 1
    then show ?thesis using clamp_acid[OF nn] assms
      by (simp add: calculateChemicalProperties_def concentration_of_acid_base)
  next
    case 2
    then show ?thesis using clamp_base[OF nn] assms
      by (simp add: calculateChemicalProperties_def concentration_of_acid_base)
  next
    case 3
    then show ?thesis by (simp add: calculateChemicalProperties_def ph_in_range_def Let_def)
  qed
qed

theorem C10_ph_in_range_witness:
  "(0::real) \<le> 0 \<and> (0::real) < 25 \<and>
   ph_in_range (cp_ph (calculateChemicalProperties ''hcl'' 0 25)) \<and>
   cp_ph (calculateChemicalProperties ''hcl'' 0 25) = Num 14"
proof -
  have "ph_in_range (cp_ph (calculateChemicalProperties ''hcl'' 0 25))"
    using C10_ph_in_range[of 0 25 "''hcl''"] by simp
  moreover have "cp_ph (calculateChemicalProperties ''hcl'' 0 25) = Num 14"
    by (simp add: calculateChemicalProperties_def concentration_of_acid_base)
  ultimately show ?thesis by simp
qed

section \<open>Mixture model: properties\<close>

lemma hex_digit_plain:
  assumes "is_hex_digit c"
  shows "\<not> is_white_space c" "c \<noteq> CHR ''-''" "c \<noteq> CHR ''+''" "c \<noteq> CHR ''x''" "c \<noteq> CHR ''X''"
  using assms
  by (auto simp: is_hex_digit_def hex_digit_value_def is_white_space_def Let_def split: if_splits)

lemma parseInt16_two_digits:
  assumes "is_hex_digit a" "is_hex_digit b"
  shows "parseInt16 [a, b] = Num (real (hex_value [a, b]))"
  using assms hex_digit_plain[OF assms(1)] hex_digit_plain[OF assms(2)]
  by (simp add: parseInt16_def strip_hex_prefix_def)

lemma channels_of_hex_color:
  assumes "hex_color s"
  shows "parseInt16 (substr (remove1 (CHR ''#'') s) 0 2) = Num (red_channel s)"
    and "parseInt16 (substr (remove1 (CHR ''#'') s) 2 2) = Num (green_channel s)"
    and "parseInt16 (substr (remove1 (CHR ''#'') s) 4 2) = Num (blue_channel s)"
  using assms
  by (auto elim!: hex_color.elims
        simp: substr_def red_channel_def green_channel_def blue_channel_def parseInt16_two_digits)

lemma mix_step_hex:
  assumes "hex_color (chem_color c)"
  shows "mix_step (Num r, Num g, Num b, t) c =
     (Num (r + red_channel (chem_color c) * chem_amount c),
      Num (g + green_channel (chem_color c) * chem_amount c),
      Num (b + blue_channel (chem_color c) * chem_amount c),
      t + chem_amount c)"
  by (simp add: mix_step_def Let_def channels_of_hex_color[OF assms])

lemma foldl_mix_step_hex:
  assumes "list_all (\<lambda>c. hex_color (chem_color c)) cs"
  shows "foldl mix_step (Num r, Num g, Num b, t) cs =
     (Num (r + (\<Sum>c\<leftarrow>cs. red_channel (chem_color c) * chem_amount c)),
      Num (g + (\<Sum>c\<leftarrow>cs. green_channel (chem_color c) * chem_amount c)),
      Num (b + (\<Sum>c\<leftarrow>cs. blue_channel (chem_color c) * chem_amount c)),
      t + total_amount cs)"
  using assms
proof (induction cs arbitrary: r g b t)
  case Nil
  then show ?case by (simp add: total_amount_def)
next
  case (Cons c cs)
  then show ?case by (simp add: mix_step_hex total_amount_def add.assoc)
qed

lemma default_color_mixing_hex:
  assumes "list_all (\<lambda>c. hex_color (chem_color c)) cs" "total_amount cs \<noteq> 0"
  shows "default_color_mixing cs =
     rgb_string (js_round (Num (weighted_average red_channel cs)))
                (js_round (Num (weighted_average green_channel cs)))
                (js_round (Num (weighted_average blue_channel cs)))"
  using assms(2)
  by (simp add: default_color_mixing_def foldl_mix_step_hex[OF assms(1)] weighted_average_def)

lemma getMixedColor_fallback:
  assumes "2 \<le> length cs" "no_special_case cs"
  shows "getMixedColor cs t = default_color_mixing cs"
proof -
  have len: "length cs \<noteq> 0" "length cs \<noteq> 1" using assms(1) by linarith+
  have ids: "\<not> (''hcl'' \<in> set (map chem_id cs) \<and> ''naoh'' \<in> set (map chem_id cs))"
    "\<not> (''phenol'' \<in> set (map chem_id cs) \<and> ''naoh'' \<in> set (map chem_id cs))"
    "\<not> (''hcl'' \<in> set (map chem_id cs) \<and> ''phenol'' \<in> set (map chem_id cs) \<and>
        ''naoh'' \<notin> set (map chem_id cs))"
    using assms(2) unfolding no_special_case_def Let_def by blast+
  show ?thesis
    unfolding getMixedColor_def Let_def set_sort using len ids by (simp only: if_False)
qed

lemma getMixedColor_titration_mixture:
  assumes "''hcl'' \<in> set (map chem_id cs)" "''naoh'' \<in> set (map chem_id cs)"
    "''phenol'' \<in> set (map chem_id cs)" "\<not> 0 < t"
  shows "getMixedColor cs t = ''#FFB6C1''"
proof -
  have "cs \<noteq> []" using assms(1) by auto
  moreover have "length cs \<noteq> 1"
  proof
    assume "length cs = 1"
    then obtain c where "cs = [c]" by (cases cs) auto
    then have "chem_id c = ''hcl''" "chem_id c = ''naoh''" using assms(1,2) by simp_all
    then show False by simp
  qed
  ultimately have len: "length cs \<noteq> 0" "length cs \<noteq> 1" by simp_all
  show ?thesis
    unfolding getMixedColor_def Let_def set_sort using len assms
    by (simp only: if_False if_True simp_thms)
qed

lemma foldl_amounts:
  "foldl (\<lambda>sum chemical. sum + chem_amount chemical) a cs = a + total_amount cs"
  by (induction cs arbitrary: a) (simp_all add: total_amount_def)

lemma parseInt16_00: "parseInt16 ''00'' = Num 0"
  by (simp add: parseInt16_def is_white_space_def strip_hex_prefix_def is_hex_digit_def
        hex_digit_value_def hex_value_def)

lemma parseInt16_FF: "parseInt16 ''FF'' = Num 255"
  by (simp add: parseInt16_def is_white_space_def strip_hex_prefix_def is_hex_digit_def
        hex_digit_value_def hex_value_def)

lemma number_to_string_128: "number_to_string (Num 128) = ''128''"
  by (simp add: number_to_string_def nat_digits.simps)

lemma default_color_mixing_grey:
  assumes "map chem_color cs = [''#000000'', ''#FFFFFF'']" "map chem_amount cs = [10, 10]"
  shows "default_color_mixing cs = ''rgb(128, 128, 128)''"
proof -
  obtain c1 c2 where cs: "cs = [c1, c2]" using assms(1) by (cases cs; cases "tl cs") auto
  have c: "chem_color c1 = ''#000000''" "chem_color c2 = ''#FFFFFF''"
    "chem_amount c1 = 10" "chem_amount c2 = 10"
    using assms by (simp_all add: cs)
  have step1: "mix_step (Num 0, Num 0, Num 0, 0) c1 = (Num 0, Num 0, Num 0, 10)"
    by (simp add: mix_step_def c substr_def parseInt16_00)
  have step2: "mix_step (Num 0, Num 0, Num 0, 10) c2 = (Num 2550, Num 2550, Num 2550, 20)"
    by (simp add: mix_step_def c substr_def parseInt16_FF)
  show ?thesis
    by (simp add: default_color_mixing_def cs step1 step2 rgb_string_def number_to_string_128)
qed

text \<open>
  Claim C4: \<open>getMixedColor\<close> returns \<open>transparent\<close> for an empty chemical list, the
  chemical's own colour when exactly one chemical is present, and for a mixture whose
  chemical identifiers are exactly \<open>hcl\<close>, \<open>naoh\<close> and \<open>phenol\<close>, with
  \<open>titrationColorProgress = 0\<close>, exactly \<open>#FFB6C1\<close>, whatever the colours and amounts
  of the chemicals: the priority table is consulted before the weighted average.
\<close>

theorem C4_mixed_color_priority:
  "getMixedColor [] t = ''transparent'' \<and>
   getMixedColor [c] t = chem_color c \<and>
   (set (map chem_id cs) = {''hcl'', ''naoh'', ''phenol''} \<longrightarrow> getMixedColor cs 0 = ''#FFB6C1'')"
proof (intro conjI impI)
  show "getMixedColor [] t = ''transparent''" by (simp add: getMixedColor_def)
  show "getMixedColor [c] t = chem_color c" by (simp add: getMixedColor_def)
  assume ids: "set (map chem_id cs) = {''hcl'', ''naoh'', ''phenol''}"
  have "''hcl'' \<in> set (map chem_id cs)" "''naoh'' \<in> set (map chem_id cs)"
    "''phenol'' \<in> set (map chem_id cs)"
    unfolding ids by simp_all
  then show "getMixedColor cs 0 = ''#FFB6C1''"
    by (rule getMixedColor_titration_mixture) simp
qed

theorem C4_mixed_color_priority_witness:
  "set (map chem_id [hcl_drop, naoh_drop, phenol_drop]) = {''hcl'', ''naoh'', ''phenol''} \<and>
   getMixedColor [hcl_drop, naoh_drop, phenol_drop] 0 = ''#FFB6C1''"
proof -
  have ids: "set (map chem_id [hcl_drop, naoh_drop, phenol_drop]) = {''hcl'', ''naoh'', ''phenol''}"
    by (simp add: hcl_drop_def naoh_drop_def phenol_drop_def)
  show ?thesis
    using C4_mixed_color_priority[of 0 hcl_drop "[hcl_drop, naoh_drop, phenol_drop]"] ids
    by blast
qed

text \<open>
  Claim C5: \<open>getSolutionHeight\<close> equals \<open>min(85, totalVolume / 100 * 85)\<close> for every
  chemical list, where the total volume is the sum of the amounts; so it does not
  decrease when the total volume grows, and it is exactly 85 for every total volume of
  100 or more.
\<close>

theorem C5_solution_height:
  "getSolutionHeight cs = min 85 (total_amount cs / 100 * 85) \<and>
   (total_amount cs \<le> total_amount cs' \<longrightarrow> getSolutionHeight cs \<le> getSolutionHeight cs') \<and>
   (100 \<le> total_amount cs \<longrightarrow> getSolutionHeight cs = 85)"
proof -
  have eq: "getSolutionHeight xs = min 85 (total_amount xs / 100 * 85)" for xs
    by (simp add: getSolutionHeight_def foldl_amounts)
  show ?thesis unfolding eq by (auto simp: min_def)
qed

theorem C5_solution_height_witness:
  "total_amount [hcl_drop] \<le> total_amount [hcl_drop, naoh_drop, naoh_drop] \<and>
   getSolutionHeight [hcl_drop] \<le> getSolutionHeight [hcl_drop, naoh_drop, naoh_drop] \<and>
   100 \<le> total_amount [hcl_drop, naoh_drop, naoh_drop] \<and>
   getSolutionHeight [hcl_drop, naoh_drop, naoh_drop] = 85 \<and>
   getSolutionHeight [hcl_drop] = 85 / 4"
proof -
  have t1: "total_amount [hcl_drop] = 25"
    by (simp add: total_amount_def hcl_drop_def)
  have t2: "total_amount [hcl_drop, naoh_drop, naoh_drop] = 125"
    by (simp add: total_amount_def hcl_drop_def naoh_drop_def)
  have h1: "getSolutionHeight [hcl_drop] = 85 / 4"
    using C5_solution_height[of "[hcl_drop]" "[hcl_drop]"] by (simp add: t1)
  show ?thesis
    using C5_solution_height[of "[hcl_drop]" "[hcl_drop, naoh_drop, naoh_drop]"]
      C5_solution_height[of "[hcl_drop, naoh_drop, naoh_drop]" "[hcl_drop]"] h1
    by (simp add: t1 t2)
qed

lemma foldl_mix_step_total:
  "snd (snd (snd (foldl mix_step (r, g, b, t) cs))) = t + total_amount cs"
proof (induction cs arbitrary: r g b t)
  case Nil
  then show ?case by (simp add: total_amount_def)
next
  case (Cons c cs)
  obtain r' g' b' where "mix_step (r, g, b, t) c = (r', g', b', t + chem_amount c)"
    by (simp add: mix_step_def Let_def)
  then show ?case using Cons.IH[of r' g' b' "t + chem_amount c"]
    by (simp add: total_amount_def add.assoc)
qed

lemma default_color_mixing_nothing:
  assumes "total_amount cs = 0"
  shows "default_color_mixing cs = ''transparent''"
proof -
  obtain r g b t where f: "foldl mix_step (Num 0, Num 0, Num 0, 0) cs = (r, g, b, t)"
    by (cases "foldl mix_step (Num 0, Num 0, Num 0, 0) cs") auto
  have "t = 0" using foldl_mix_step_total[of "Num 0" "Num 0" "Num 0" 0 cs] f assms by simp
  then show ?thesis by (simp add: default_color_mixing_def f)
qed

lemma hex_digit_value_le: "hex_digit_value c = Some v \<Longrightarrow> v \<le> 15"
  by (auto simp: hex_digit_value_def Let_def split: if_splits)

lemma hex_value_pair_le:
  assumes "is_hex_digit a" "is_hex_digit b"
  shows "hex_value [a, b] \<le> 255"
proof -
  obtain va vb where v: "hex_digit_value a = Some va" "hex_digit_value b = Some vb"
    using assms by (auto simp: is_hex_digit_def)
  have "va \<le> 15" "vb \<le> 15" using v by (simp_all add: hex_digit_value_le)
  then show ?thesis by (simp add: hex_value_def v)
qed

lemma channels_le:
  assumes "hex_color s"
  shows "red_channel s \<le> 255" "green_channel s \<le> 255" "blue_channel s \<le> 255"
  using assms
  by (auto elim!: hex_color.elims
        simp: red_channel_def green_channel_def blue_channel_def hex_value_pair_le)

lemma channels_ge: "0 \<le> red_channel s" "0 \<le> green_channel s" "0 \<le> blue_channel s"
  by (simp_all add: red_channel_def green_channel_def blue_channel_def)

lemma weighted_sum_bounds:
  assumes "list_all (\<lambda>c. 0 \<le> f c \<and> f c \<le> 255 \<and> 0 \<le> chem_amount c) cs"
  shows "0 \<le> (\<Sum>c\<leftarrow>cs. f c * chem_amount c) \<and>
         (\<Sum>c\<leftarrow>cs. f c * chem_amount c) \<le> 255 * total_amount cs \<and> 0 \<le> total_amount cs"
  using assms
proof (induction cs)
  case Nil
  then show ?case by (simp add: total_amount_def)
next
  case (Cons c cs)
  then have c: "0 \<le> f c" "f c \<le> 255" "0 \<le> chem_amount c"
    and ih: "0 \<le> (\<Sum>c\<leftarrow>cs. f c * chem_amount c)"
      "(\<Sum>c\<leftarrow>cs. f c * chem_amount c) \<le> 255 * total_amount cs" "0 \<le> total_amount cs"
    by simp_all
  have "f c * chem_amount c \<le> 255 * chem_amount c" using c by (simp add: mult_right_mono)
  moreover have "0 \<le> f c * chem_amount c" using c by simp
  ultimately show ?case using ih c(3) by (simp add: total_amount_def algebra_simps)
qed

lemma rounded_average_is_byte:
  assumes "list_all (\<lambda>c. 0 \<le> f (chem_color c) \<and> f (chem_color c) \<le> 255 \<and> 0 \<le> chem_amount c) cs"
    and "total_amount cs \<noteq> 0"
  shows "is_byte (js_round (Num (weighted_average f cs)))"
proof -
  note b = weighted_sum_bounds[of "\<lambda>c. f (chem_color c)" cs, OF assms(1)]
  have pos: "0 < total_amount cs" using b assms(2) by simp
  have lo: "0 \<le> weighted_average f cs" using b pos by (simp add: weighted_average_def)
  have hi: "weighted_average f cs \<le> 255"
    using b pos by (simp add: weighted_average_def pos_divide_le_eq)
  have "0 \<le> \<lfloor>weighted_average f cs + 1 / 2\<rfloor>" using lo by simp
  moreover have "\<lfloor>weighted_average f cs + 1 / 2\<rfloor> \<le> 255"
  proof -
    have "weighted_average f cs + 1 / 2 < 256" using hi by simp
    then have "\<lfloor>weighted_average f cs + 1 / 2\<rfloor> < 256" by (simp add: floor_less_iff)
    then show ?thesis by simp
  qed
  ultimately show ?thesis by (simp add: is_byte_def)
qed

lemma parseInt16_registry:
  "parseInt16 ''F8'' = Num 248" "parseInt16 ''tr'' = NaN" "parseInt16 ''an'' = Num 10"
  "parseInt16 ''sp'' = NaN"
  by (simp_all add: parseInt16_def is_white_space_def strip_hex_prefix_def is_hex_digit_def
        hex_digit_value_def hex_value_def)

lemma number_to_string_58: "number_to_string (Num 58) = ''58''"
  by (simp add: number_to_string_def nat_digits.simps)

lemma number_to_string_NaN: "number_to_string NaN = ''NaN''"
  by (simp add: number_to_string_def)

lemma default_color_mixing_registry:
  "default_color_mixing [salicylic_acid_drop, distilled_water_drop] = ''rgb(NaN, 58, NaN)''"
proof -
  have step1: "mix_step (Num 0, Num 0, Num 0, 0) salicylic_acid_drop =
      (Num 6200, Num 6200, Num 6375, 25)"
    by (simp add: mix_step_def salicylic_acid_drop_def substr_def parseInt16_registry parseInt16_FF)
  have step2: "mix_step (Num 6200, Num 6200, Num 6375, 25) distilled_water_drop =
      (NaN, Num 7200, NaN, 125)"
    by (simp add: mix_step_def distilled_water_drop_def substr_def parseInt16_registry)
  have "\<lfloor>(288::real) / 5 + 1 / 2\<rfloor> = 58" by (simp add: floor_eq_iff)
  then have r: "js_round (Num (288 / 5)) = Num 58" by simp
  show ?thesis
    by (simp add: default_color_mixing_def step1 step2 rgb_string_def number_to_string_58
          number_to_string_NaN r del: js_round.simps(1))
qed

text \<open>
  Claim C9, as stated: for the colours \<open>#000000\<close> and \<open>#FFFFFF\<close>, 10 mL each, and no
  special-case match, \<open>getMixedColor\<close> returns \<open>rgb(128,128,128)\<close>, and in general the
  fallback is the amount-weighted average of each channel over all chemicals present.

  The string returned for black and white is \<open>rgb(128, 128, 128)\<close>: the template
  literal of the source puts a blank after each comma. And the fallback is not the
  weighted average for every mixture: the chemical registry gives distilled water the
  colour \<open>transparent\<close>, no hexadecimal literal, and for 25 mL of salicylic acid
  (\<open>#F8F8FF\<close>) with 100 mL of distilled water, where no special case matches,
  \<open>getMixedColor\<close> returns \<open>rgb(NaN, 58, NaN)\<close>: \<open>parseInt\<close> of \<open>tr\<close> and of \<open>sp\<close> is
  \<open>NaN\<close>, and of \<open>an\<close> it is 10.
\<close>

theorem C9_counterexample:
  "no_special_case [black_chemical, white_chemical] \<and>
   getMixedColor [black_chemical, white_chemical] 0 = ''rgb(128, 128, 128)'' \<and>
   getMixedColor [black_chemical, white_chemical] 0 \<noteq> ''rgb(128,128,128)'' \<and>
   no_special_case [salicylic_acid_drop, distilled_water_drop] \<and>
   getMixedColor [salicylic_acid_drop, distilled_water_drop] 0 = ''rgb(NaN, 58, NaN)''"
proof -
  have n1: "no_special_case [black_chemical, white_chemical]"
    by (simp add: no_special_case_def black_chemical_def white_chemical_def)
  have n2: "no_special_case [salicylic_acid_drop, distilled_water_drop]"
    by (simp add: no_special_case_def salicylic_acid_drop_def distilled_water_drop_def)
  have len1: "2 \<le> length [black_chemical, white_chemical]" by simp
  have len2: "2 \<le> length [salicylic_acid_drop, distilled_water_drop]" by simp
  have d1: "default_color_mixing [black_chemical, white_chemical] = ''rgb(128, 128, 128)''"
    by (rule default_color_mixing_grey) (simp_all add: black_chemical_def white_chemical_def)
  have g1: "getMixedColor [black_chemical, white_chemical] 0 = ''rgb(128, 128, 128)''"
    unfolding getMixedColor_fallback[OF len1 n1] by (rule d1)
  have ne: "getMixedColor [black_chemical, white_chemical] 0 \<noteq> ''rgb(128,128,128)''"
    unfolding g1 by simp
  have g2: "getMixedColor [salicylic_acid_drop, distilled_water_drop] 0 = ''rgb(NaN, 58, NaN)''"
    unfolding getMixedColor_fallback[OF len2 n2] by (rule default_color_mixing_registry)
  show ?thesis
    by (intro conjI) (rule n1 g1 ne n2 g2)+
qed

text \<open>
  Claim C9, amended: for two chemicals with the colours \<open>#000000\<close> and \<open>#FFFFFF\<close>,
  10 mL each, and no special-case match, \<open>getMixedColor\<close> returns the string
  \<open>rgb(128, 128, 128)\<close>, with a blank after each comma. In general, for two or more
  chemicals and no special-case match: when every colour is a literal \<open>#RRGGBB\<close> and
  the total amount is not zero, the result is \<open>rgb(r, g, b)\<close> with each channel the
  amount-weighted average over all chemicals present, rounded by \<open>Math.round\<close>, and
  each channel is an integer from 0 to 255 when no amount is negative; when the total
  amount is zero the result is \<open>transparent\<close>.
\<close>

theorem C9_weighted_average_fallback:
  "(no_special_case cs \<and> map chem_color cs = [''#000000'', ''#FFFFFF''] \<and>
    map chem_amount cs = [10, 10] \<longrightarrow>
      getMixedColor cs t = ''rgb(128, 128, 128)'') \<and>
   (no_special_case cs \<and> 2 \<le> length cs \<and> list_all (\<lambda>c. hex_color (chem_color c)) cs \<and>
    total_amount cs \<noteq> 0 \<longrightarrow>
      getMixedColor cs t =
        rgb_string (js_round (Num (weighted_average red_channel cs)))
                   (js_round (Num (weighted_average green_channel cs)))
                   (js_round (Num (weighted_average blue_channel cs))) \<and>
      (list_all (\<lambda>c. 0 \<le> chem_amount c) cs \<longrightarrow>
         is_byte (js_round (Num (weighted_average red_channel cs))) \<and>
         is_byte (js_round (Num (weighted_average green_channel cs))) \<and>
         is_byte (js_round (Num (weighted_average blue_channel cs))))) \<and>
   (no_special_case cs \<and> 2 \<le> length cs \<and> total_amount cs = 0 \<longrightarrow>
      getMixedColor cs t = ''transparent'')"
proof (intro conjI impI)
  assume a: "no_special_case cs \<and> map chem_color cs = [''#000000'', ''#FFFFFF''] \<and>
    map chem_amount cs = [10, 10]"
  then have "length (map chem_color cs) = 2" by simp
  then have len: "2 \<le> length cs" by simp
  show "getMixedColor cs t = ''rgb(128, 128, 128)''"
    using a getMixedColor_fallback[OF len] default_color_mixing_grey by simp
next
  assume a: "no_special_case cs \<and> 2 \<le> length cs \<and>
    list_all (\<lambda>c. hex_color (chem_color c)) cs \<and> total_amount cs \<noteq> 0"
  then show "getMixedColor cs t =
        rgb_string (js_round (Num (weighted_average red_channel cs)))
                   (js_round (Num (weighted_average green_channel cs)))
                   (js_round (Num (weighted_average blue_channel cs)))"
    using getMixedColor_fallback[of cs t] default_color_mixing_hex[of cs] by simp
  assume nn: "list_all (\<lambda>c. 0 \<le> chem_amount c) cs"
  have hex: "\<forall>c \<in> set cs. hex_color (chem_color c)" and amt: "\<forall>c \<in> set cs. 0 \<le> chem_amount c"
    using a nn by (simp_all add: list_all_iff)
  have tot: "total_amount cs \<noteq> 0" using a by simp
  have red: "list_all (\<lambda>c. 0 \<le> red_channel (chem_color c) \<and> red_channel (chem_color c) \<le> 255 \<and>
                        0 \<le> chem_amount c) cs"
    using hex amt by (simp add: list_all_iff channels_le channels_ge)
  show "is_byte (js_round (Num (weighted_average red_channel cs)))"
    by (rule rounded_average_is_byte[OF red tot])
  have green: "list_all (\<lambda>c. 0 \<le> green_channel (chem_color c) \<and> green_channel (chem_color c) \<le> 255 \<and>
                        0 \<le> chem_amount c) cs"
    using hex amt by (simp add: list_all_iff channels_le channels_ge)
  show "is_byte (js_round (Num (weighted_average green_channel cs)))"
    by (rule rounded_average_is_byte[OF green tot])
  have blue: "list_all (\<lambda>c. 0 \<le> blue_channel (chem_color c) \<and> blue_channel (chem_color c) \<le> 255 \<and>
                        0 \<le> chem_amount c) cs"
    using hex amt by (simp add: list_all_iff channels_le channels_ge)
  show "is_byte (js_round (Num (weighted_average blue_channel cs)))"
    by (rule rounded_average_is_byte[OF blue tot])
next
  assume a: "no_special_case cs \<and> 2 \<le> length cs \<and> total_amount cs = 0"
  then show "getMixedColor cs t = ''transparent''"
    using getMixedColor_fallback[of cs t] default_color_mixing_nothing[of cs] by simp
qed

theorem C9_weighted_average_fallback_witness:
  "no_special_case [black_chemical, white_chemical] \<and>
   list_all (\<lambda>c. hex_color (chem_color c)) [black_chemical, white_chemical] \<and>
   list_all (\<lambda>c. 0 \<le> chem_amount c) [black_chemical, white_chemical] \<and>
   total_amount [black_chemical, white_chemical] = 20 \<and>
   weighted_average red_channel [black_chemical, white_chemical] = 255 / 2 \<and>
   getMixedColor [black_chemical, white_chemical] 0 = ''rgb(128, 128, 128)'' \<and>
   getMixedColor [black_chemical, white_chemical] 0 =
     rgb_string (js_round (Num (weighted_average red_channel [black_chemical, white_chemical])))
                (js_round (Num (weighted_average green_channel [black_chemical, white_chemical])))
                (js_round (Num (weighted_average blue_channel [black_chemical, white_chemical]))) \<and>
   is_byte (js_round (Num (weighted_average red_channel [black_chemical, white_chemical]))) \<and>
   no_special_case [black_chemical\<lparr>chem_amount := 0\<rparr>, white_chemical\<lparr>chem_amount := 0\<rparr>] \<and>
   total_amount [black_chemical\<lparr>chem_amount := 0\<rparr>, white_chemical\<lparr>chem_amount := 0\<rparr>] = 0 \<and>
   getMixedColor [black_chemical\<lparr>chem_amount := 0\<rparr>, white_chemical\<lparr>chem_amount := 0\<rparr>] 0 =
     ''transparent''"
proof -
  have nsc: "no_special_case [black_chemical, white_chemical]"
    by (simp add: no_special_case_def black_chemical_def white_chemical_def)
  have hex: "list_all (\<lambda>c. hex_color (chem_color c)) [black_chemical, white_chemical]"
    by (simp add: black_chemical_def white_chemical_def is_hex_digit_def hex_digit_value_def)
  have nn: "list_all (\<lambda>c. 0 \<le> chem_amount c) [black_chemical, white_chemical]"
    by (simp add: black_chemical_def white_chemical_def)
  have tot: "total_amount [black_chemical, white_chemical] = 20"
    by (simp add: total_amount_def black_chemical_def white_chemical_def)
  have num: "(\<Sum>c\<leftarrow>[black_chemical, white_chemical]. red_channel (chem_color c) * chem_amount c) = 2550"
    by (simp add: red_channel_def hex_value_def hex_digit_value_def
          black_chemical_def white_chemical_def)
  have red: "weighted_average red_channel [black_chemical, white_chemical] = 255 / 2"
    unfolding weighted_average_def tot num by simp
  have cols: "map chem_color [black_chemical, white_chemical] = [''#000000'', ''#FFFFFF'']"
    "map chem_amount [black_chemical, white_chemical] = [10, 10]"
    by (simp_all add: black_chemical_def white_chemical_def)
  have len: "2 \<le> length [black_chemical, white_chemical]" by simp
  have tot0: "total_amount [black_chemical, white_chemical] \<noteq> 0" using tot by simp
  note fallback = C9_weighted_average_fallback[of "[black_chemical, white_chemical]" 0]
  have grey: "getMixedColor [black_chemical, white_chemical] 0 = ''rgb(128, 128, 128)''"
    by (rule mp[OF conjunct1[OF fallback]]) (intro conjI nsc cols)
  have general: "getMixedColor [black_chemical, white_chemical] 0 =
     rgb_string (js_round (Num (weighted_average red_channel [black_chemical, white_chemical])))
                (js_round (Num (weighted_average green_channel [black_chemical, white_chemical])))
                (js_round (Num (weighted_average blue_channel [black_chemical, white_chemical]))) \<and>
     (list_all (\<lambda>c. 0 \<le> chem_amount c) [black_chemical, white_chemical] \<longrightarrow>
        is_byte (js_round (Num (weighted_average red_channel [black_chemical, white_chemical]))) \<and>
        is_byte (js_round (Num (weighted_average green_channel [black_chemical, white_chemical]))) \<and>
        is_byte (js_round (Num (weighted_average blue_channel [black_chemical, white_chemical]))))"
    by (rule mp[OF conjunct1[OF conjunct2[OF fallback]]]) (intro conjI nsc len hex tot0)
  note avg = conjunct1[OF general]
  note byte = conjunct1[OF mp[OF conjunct2[OF general] nn]]
  note at_zero = C9_weighted_average_fallback[of
      "[black_chemical\<lparr>chem_amount := 0\<rparr>, white_chemical\<lparr>chem_amount := 0\<rparr>]" 0]
  have nsc0: "no_special_case [black_chemical\<lparr>chem_amount := 0\<rparr>, white_chemical\<lparr>chem_amount := 0\<rparr>]"
    by (simp add: no_special_case_def black_chemical_def white_chemical_def)
  have zero: "total_amount [black_chemical\<lparr>chem_amount := 0\<rparr>, white_chemical\<lparr>chem_amount := 0\<rparr>] = 0"
    by (simp add: total_amount_def)
  have len0: "2 \<le> length [black_chemical\<lparr>chem_amount := 0\<rparr>, white_chemical\<lparr>chem_amount := 0\<rparr>]"
    by simp
  have transparent:
    "getMixedColor [black_chemical\<lparr>chem_amount := 0\<rparr>, white_chemical\<lparr>chem_amount := 0\<rparr>] 0 =
       ''transparent''"
    by (rule mp[OF conjunct2[OF conjunct2[OF at_zero]]]) (intro conjI nsc0 len0 zero)
  show ?thesis
    by (intro conjI) (rule nsc hex nn tot red grey avg byte nsc0 zero transparent)+
qed

section \<open>The component: what each operation changes\<close>

lemma find_equipment_map:
  assumes "\<And>pos. eq_id (f pos) = eq_id pos"
  shows "find_equipment name (map f positions) = map_option f (find_equipment name positions)"
  by (induction positions) (simp_all add: find_equipment_def assms)

lemma find_equipment_Some:
  "find_equipment name positions = Some pos \<Longrightarrow> eq_id pos = name \<and> pos \<in> set positions"
  by (induction positions) (auto simp: find_equipment_def split: if_splits)

lemma burette_after_flask_map:
  assumes "\<And>pos. eq_id (f pos) = eq_id pos"
    and "\<And>pos. eq_id pos \<noteq> ''conical_flask'' \<Longrightarrow> f pos = pos"
  shows "find_equipment ''burette'' (map f positions) = find_equipment ''burette'' positions"
proof (cases "find_equipment ''burette'' positions")
  case None
  then show ?thesis by (simp add: find_equipment_map[of f, OF assms(1)])
next
  case (Some b)
  then have "eq_id b = ''burette''" by (simp add: find_equipment_Some)
  then have "f b = b" by (simp add: assms(2))
  then show ?thesis using Some by (simp add: find_equipment_map[of f, OF assms(1)])
qed

lemma burette_untouched:
  "find_equipment ''burette'' (add_naoh_to_flask positions) = find_equipment ''burette'' positions"
  "find_equipment ''burette'' (set_naoh_amount a positions) = find_equipment ''burette'' positions"
  "find_equipment ''burette'' (drip_into_flask positions) = find_equipment ''burette'' positions"
  unfolding add_naoh_to_flask_def set_naoh_amount_def drip_into_flask_def
  by (rule burette_after_flask_map; simp)+

lemma flask_stays:
  "(find_equipment ''conical_flask'' (add_naoh_to_flask positions) = None) =
     (find_equipment ''conical_flask'' positions = None)"
  "(find_equipment ''conical_flask'' (set_naoh_amount a positions) = None) =
     (find_equipment ''conical_flask'' positions = None)"
  "(find_equipment ''conical_flask'' (drip_into_flask positions) = None) =
     (find_equipment ''conical_flask'' positions = None)"
  unfolding add_naoh_to_flask_def set_naoh_amount_def drip_into_flask_def
  by (subst find_equipment_map; simp)+

lemma update_obs [obs]:
  "pending (s\<lparr>pending := ps\<rparr>) = ps"
  "isTitrating (s\<lparr>pending := ps\<rparr>) = isTitrating s"
  "cumulativeVolume (s\<lparr>pending := ps\<rparr>) = cumulativeVolume s"
  "cumulativeColorIntensity (s\<lparr>pending := ps\<rparr>) = cumulativeColorIntensity s"
  "completedSteps (s\<lparr>pending := ps\<rparr>) = completedSteps s"
  "results (s\<lparr>pending := ps\<rparr>) = results s"
  "toastMessage (s\<lparr>pending := ps\<rparr>) = toastMessage s"
  "pending (s\<lparr>toastMessage := t\<rparr>) = pending s"
  "isTitrating (s\<lparr>toastMessage := t\<rparr>) = isTitrating s"
  "cumulativeVolume (s\<lparr>toastMessage := t\<rparr>) = cumulativeVolume s"
  "cumulativeColorIntensity (s\<lparr>toastMessage := t\<rparr>) = cumulativeColorIntensity s"
  "completedSteps (s\<lparr>toastMessage := t\<rparr>) = completedSteps s"
  "results (s\<lparr>toastMessage := t\<rparr>) = results s"
  by simp_all

lemma schedule_obs [obs]:
  "pending (schedule cb s) = pending s @ [cb]"
  "isTitrating (schedule cb s) = isTitrating s"
  "cumulativeVolume (schedule cb s) = cumulativeVolume s"
  "cumulativeColorIntensity (schedule cb s) = cumulativeColorIntensity s"
  "completedSteps (schedule cb s) = completedSteps s"
  "results (schedule cb s) = results s"
  "equipmentPositions (schedule cb s) = equipmentPositions s"
  "toastMessage (schedule cb s) = toastMessage s"
  by (simp_all add: schedule_def)

lemma markStepCompleted_obs [obs]:
  "pending (markStepCompleted props captured n msg s) =
     pending s @ (if str_includes (experimentTitle props) ''Acid-Base'' \<and> n \<notin> set captured
                  then [CompleteStep n msg] else [])"
  "isTitrating (markStepCompleted props captured n msg s) = isTitrating s"
  "cumulativeVolume (markStepCompleted props captured n msg s) = cumulativeVolume s"
  "cumulativeColorIntensity (markStepCompleted props captured n msg s) = cumulativeColorIntensity s"
  "completedSteps (markStepCompleted props captured n msg s) = completedSteps s"
  "results (markStepCompleted props captured n msg s) = results s"
  "equipmentPositions (markStepCompleted props captured n msg s) = equipmentPositions s"
  "toastMessage (markStepCompleted props captured n msg s) = toastMessage s"
  by (simp_all add: markStepCompleted_def schedule_obs)

lemma handleStopTitration_obs [obs]:
  "pending (handleStopTitration s) = pending s @ [ClearToast]"
  "isTitrating (handleStopTitration s) = False"
  "cumulativeVolume (handleStopTitration s) = cumulativeVolume s"
  "cumulativeColorIntensity (handleStopTitration s) = cumulativeColorIntensity s"
  "completedSteps (handleStopTitration s) = completedSteps s"
  "results (handleStopTitration s) = results s"
  "equipmentPositions (handleStopTitration s) = equipmentPositions s"
  by (simp_all add: handleStopTitration_def Let_def schedule_def)

lemma animateColor_obs [obs]:
  "pending (animateColor props cl now s) =
     pending s @
     (if easing (progress_at cl now) \<ge> 0.3 \<and> 5 \<notin> set (cl_completedSteps cl) \<and>
         str_includes (experimentTitle props) ''Acid-Base''
      then [CompleteStep 5 ''Endpoint identified - solution turned pink''] else []) @
     (if progress_at cl now \<ge> 1
      then [CycleClose cl (cl_cumulativeVolume cl + progress_at cl now * 20)
                        (cl_cumulativeColorIntensity cl + easing (progress_at cl now))]
      else [AnimationFrame cl])"
  "isTitrating (animateColor props cl now s) = isTitrating s"
  "cumulativeVolume (animateColor props cl now s) = cumulativeVolume s"
  "cumulativeColorIntensity (animateColor props cl now s) = cumulativeColorIntensity s"
  "completedSteps (animateColor props cl now s) = completedSteps s"
  "results (animateColor props cl now s) = results s"
  "equipmentPositions (animateColor props cl now s) =
     set_naoh_amount (1 + progress_at cl now * 2) (equipmentPositions s)"
  by (simp_all add: animateColor_def Let_def progress_at_def obs)

lemma run_CycleClose_obs [obs]:
  "pending (run_CycleClose cl v c s) = pending s @ (if cl_isTitrating cl then [ClearToast] else [])"
  "isTitrating (run_CycleClose cl v c s) = (if cl_isTitrating cl then False else isTitrating s)"
  "cumulativeVolume (run_CycleClose cl v c s) = (if cl_isTitrating cl then v else cumulativeVolume s)"
  "cumulativeColorIntensity (run_CycleClose cl v c s) =
     (if cl_isTitrating cl then c else cumulativeColorIntensity s)"
  "completedSteps (run_CycleClose cl v c s) = completedSteps s"
  "results (run_CycleClose cl v c s) =
     results s @ (if cl_isTitrating cl then [titrationResult cl v] else [])"
  "equipmentPositions (run_CycleClose cl v c s) = equipmentPositions s"
  by (simp_all add: run_CycleClose_def schedule_def)

lemma run_CompleteStep_obs [obs]:
  "pending (run_CompleteStep n msg s) = pending s @ [ClearToast]"
  "isTitrating (run_CompleteStep n msg s) = isTitrating s"
  "cumulativeVolume (run_CompleteStep n msg s) = cumulativeVolume s"
  "cumulativeColorIntensity (run_CompleteStep n msg s) = cumulativeColorIntensity s"
  "completedSteps (run_CompleteStep n msg s) = new_Set (completedSteps s @ [n])"
  "results (run_CompleteStep n msg s) = results s"
  "equipmentPositions (run_CompleteStep n msg s) = equipmentPositions s"
  "toastMessage (run_CompleteStep n msg s) = Some (step_toast n msg)"
  by (simp_all add: run_CompleteStep_def schedule_def)

lemma run_DropInterval_obs [obs]:
  "pending (run_DropInterval cl bx by d s) =
     pending s @ (if cl_isTitrating cl then [RemoveDrop d, DropInterval cl bx by] else [])"
  "isTitrating (run_DropInterval cl bx by d s) = isTitrating s"
  "cumulativeVolume (run_DropInterval cl bx by d s) = cumulativeVolume s"
  "cumulativeColorIntensity (run_DropInterval cl bx by d s) = cumulativeColorIntensity s"
  "completedSteps (run_DropInterval cl bx by d s) = completedSteps s"
  "results (run_DropInterval cl bx by d s) = results s"
  "equipmentPositions (run_DropInterval cl bx by d s) =
     (if cl_isTitrating cl \<and> cl_titrationDropCount cl mod 10 = 0
      then drip_into_flask (equipmentPositions s) else equipmentPositions s)"
  by (simp_all add: run_DropInterval_def Let_def schedule_def)

lemma run_RemoveDrop_obs [obs]:
  "pending (run_RemoveDrop d s) = pending s"
  "isTitrating (run_RemoveDrop d s) = isTitrating s"
  "cumulativeVolume (run_RemoveDrop d s) = cumulativeVolume s"
  "cumulativeColorIntensity (run_RemoveDrop d s) = cumulativeColorIntensity s"
  "completedSteps (run_RemoveDrop d s) = completedSteps s"
  "results (run_RemoveDrop d s) = results s"
  "equipmentPositions (run_RemoveDrop d s) = equipmentPositions s"
  by (simp_all add: run_RemoveDrop_def)

lemma onReset_obs [obs]:
  "pending (onReset props s) = pending s @ [ClearToast]"
  "isTitrating (onReset props s) = False"
  "cumulativeVolume (onReset props s) = 5"
  "cumulativeColorIntensity (onReset props s) = 0"
  "completedSteps (onReset props s) = []"
  "results (onReset props s) = []"
  "equipmentPositions (onReset props s) = []"
  by (simp_all add: onReset_def schedule_def)

lemma workbench_obs [obs]:
  "burette_of (s\<lparr>pending := ps\<rparr>) = burette_of s"
  "has_flask (s\<lparr>pending := ps\<rparr>) = has_flask s"
  "burette_of (s\<lparr>toastMessage := t\<rparr>) = burette_of s"
  "has_flask (s\<lparr>toastMessage := t\<rparr>) = has_flask s"
  "burette_of (schedule cb s) = burette_of s"
  "has_flask (schedule cb s) = has_flask s"
  "burette_of (markStepCompleted props captured n msg s) = burette_of s"
  "has_flask (markStepCompleted props captured n msg s) = has_flask s"
  "burette_of (handleStopTitration s) = burette_of s"
  "has_flask (handleStopTitration s) = has_flask s"
  "burette_of (animateColor props cl now s) = burette_of s"
  "has_flask (animateColor props cl now s) = has_flask s"
  "burette_of (run_CycleClose cl v c s) = burette_of s"
  "has_flask (run_CycleClose cl v c s) = has_flask s"
  "burette_of (run_CompleteStep n msg s) = burette_of s"
  "has_flask (run_CompleteStep n msg s) = has_flask s"
  "burette_of (run_DropInterval cl bx by d s) = burette_of s"
  "has_flask (run_DropInterval cl bx by d s) = has_flask s"
  "burette_of (run_RemoveDrop d s) = burette_of s"
  "has_flask (run_RemoveDrop d s) = has_flask s"
  by (simp_all add: burette_of_def has_flask_def obs burette_untouched flask_stays
        del: not_None_eq)

lemma can_start_obs [obs]:
  "can_start (s\<lparr>pending := ps\<rparr>) = can_start s"
  "can_start (s\<lparr>toastMessage := t\<rparr>) = can_start s"
  "can_start (schedule cb s) = can_start s"
  "can_start (markStepCompleted props captured n msg s) = can_start s"
  "can_start (handleStopTitration s) = can_start s"
  "can_start (animateColor props cl now s) = can_start s"
  "can_start (run_CycleClose cl v c s) = can_start s"
  "can_start (run_CompleteStep n msg s) = can_start s"
  "can_start (run_DropInterval cl bx by d s) = can_start s"
  "can_start (run_RemoveDrop d s) = can_start s"
  by (simp_all add: can_start_def workbench_obs split: option.splits)

lemma closure_of_sel:
  "cl_isTitrating (closure_of now k s) = isTitrating s"
  "cl_cumulativeVolume (closure_of now k s) = cumulativeVolume s"
  "cl_cumulativeColorIntensity (closure_of now k s) = cumulativeColorIntensity s"
  "cl_completedSteps (closure_of now k s) = completedSteps s"
  "cl_titrationDropCount (closure_of now k s) = k"
  "cl_startTime (closure_of now k s) = now"
  by (simp_all add: closure_of_def)

subsection \<open>\<open>handleStartTitration\<close>\<close>

lemma handleStartTitration_warns:
  assumes "burette_of s = None \<or> \<not> has_flask s"
  shows "handleStartTitration props now k s =
           s\<lparr>toastMessage := Some ''Please place both burette and conical flask first!'',
             pending := pending s @ [ClearToast]\<rparr>"
  using assms
  by (auto simp: handleStartTitration_def burette_of_def has_flask_def warn_toast_def schedule_def
           split: option.splits)

lemma handleStartTitration_warns_naoh:
  assumes "burette_of s = Some b" "has_flask s" "\<not> has_chemical ''naoh'' (eq_chemicals b)"
  shows "handleStartTitration props now k s =
           s\<lparr>toastMessage := Some ''Please add NaOH to the burette first!'',
             pending := pending s @ [ClearToast]\<rparr>"
  using assms
  by (auto simp: handleStartTitration_def burette_of_def has_flask_def warn_toast_def schedule_def
           split: option.splits)

lemma handleStartTitration_started:
  assumes "burette_of s = Some b" "has_flask s" "has_chemical ''naoh'' (eq_chemicals b)"
  shows "pending (handleStartTitration props now k s) =
           pending s @
           (if str_includes (experimentTitle props) ''Acid-Base'' \<and> 4 \<notin> set (completedSteps s)
            then [CompleteStep 4 ''Initial titration started''] else []) @
           [ClearToast, ClearToast, AnimationFrame (closure_of now k s),
            DropInterval (closure_of now k s) (eq_x b) (eq_y b)]"
    and "isTitrating (handleStartTitration props now k s)"
    and "cumulativeVolume (handleStartTitration props now k s) = cumulativeVolume s"
    and "cumulativeColorIntensity (handleStartTitration props now k s) = cumulativeColorIntensity s"
    and "completedSteps (handleStartTitration props now k s) = completedSteps s"
    and "results (handleStartTitration props now k s) = results s @ [initialResult]"
    and "burette_of (handleStartTitration props now k s) = burette_of s"
    and "has_flask (handleStartTitration props now k s) = has_flask s"
proof -
  obtain f where f: "find_equipment ''conical_flask'' (equipmentPositions s) = Some f"
    using assms(2) by (auto simp: has_flask_def)
  have b: "find_equipment ''burette'' (equipmentPositions s) = Some b"
    using assms(1) by (simp add: burette_of_def)
  note defs = handleStartTitration_def Let_def b f assms(3) obs
  show "pending (handleStartTitration props now k s) =
           pending s @
           (if str_includes (experimentTitle props) ''Acid-Base'' \<and> 4 \<notin> set (completedSteps s)
            then [CompleteStep 4 ''Initial titration started''] else []) @
           [ClearToast, ClearToast, AnimationFrame (closure_of now k s),
            DropInterval (closure_of now k s) (eq_x b) (eq_y b)]"
    by (simp add: defs)
  show "isTitrating (handleStartTitration props now k s)" by (simp add: defs)
  show "cumulativeVolume (handleStartTitration props now k s) = cumulativeVolume s"
    by (simp add: defs)
  show "cumulativeColorIntensity (handleStartTitration props now k s) = cumulativeColorIntensity s"
    by (simp add: defs)
  show "completedSteps (handleStartTitration props now k s) = completedSteps s" by (simp add: defs)
  show "results (handleStartTitration props now k s) = results s @ [initialResult]"
    by (simp add: defs)
  show "burette_of (handleStartTitration props now k s) = burette_of s"
    by (simp add: defs burette_of_def burette_untouched)
  show "has_flask (handleStartTitration props now k s) = has_flask s"
    by (simp add: defs has_flask_def flask_stays del: not_None_eq)
qed

lemma handleStartTitration_obs [obs]:
  assumes "can_start s"
  shows "pending (handleStartTitration props now k s) =
           pending s @
           (if str_includes (experimentTitle props) ''Acid-Base'' \<and> 4 \<notin> set (completedSteps s)
            then [CompleteStep 4 ''Initial titration started''] else []) @
           [ClearToast, ClearToast, AnimationFrame (closure_of now k s),
            DropInterval (closure_of now k s) (eq_x (the (burette_of s))) (eq_y (the (burette_of s)))]"
    and "isTitrating (handleStartTitration props now k s)"
    and "results (handleStartTitration props now k s) = results s @ [initialResult]"
    and "can_start (handleStartTitration props now k s)"
proof -
  obtain b where b: "burette_of s = Some b" "has_flask s" "has_chemical ''naoh'' (eq_chemicals b)"
    using assms by (auto simp: can_start_def split: option.splits)
  note started = handleStartTitration_started[OF b]
  show "pending (handleStartTitration props now k s) =
           pending s @
           (if str_includes (experimentTitle props) ''Acid-Base'' \<and> 4 \<notin> set (completedSteps s)
            then [CompleteStep 4 ''Initial titration started''] else []) @
           [ClearToast, ClearToast, AnimationFrame (closure_of now k s),
            DropInterval (closure_of now k s) (eq_x (the (burette_of s))) (eq_y (the (burette_of s)))]"
    using started(1) b(1) by simp
  show "isTitrating (handleStartTitration props now k s)" by (rule started(2))
  show "results (handleStartTitration props now k s) = results s @ [initialResult]"
    by (rule started(6))
  show "can_start (handleStartTitration props now k s)"
    using b by (simp add: can_start_def started(7,8))
qed

lemma start_cases:
  obtains (missing) "burette_of s = None \<or> \<not> has_flask s"
  | (unfilled) b where "burette_of s = Some b" "has_flask s" "\<not> has_chemical ''naoh'' (eq_chemicals b)"
  | (ready) b where "burette_of s = Some b" "has_flask s" "has_chemical ''naoh'' (eq_chemicals b)"
  by (cases "burette_of s") auto

lemma handleStartTitration_cumulative [obs]:
  "cumulativeVolume (handleStartTitration props now k s) = cumulativeVolume s"
  "cumulativeColorIntensity (handleStartTitration props now k s) = cumulativeColorIntensity s"
  "completedSteps (handleStartTitration props now k s) = completedSteps s"
proof -
  have "cumulativeVolume (handleStartTitration props now k s) = cumulativeVolume s \<and>
     cumulativeColorIntensity (handleStartTitration props now k s) = cumulativeColorIntensity s \<and>
     completedSteps (handleStartTitration props now k s) = completedSteps s"
  proof (cases s rule: start_cases)
    case missing
    then show ?thesis by (simp add: handleStartTitration_warns)
  next
    case (unfilled b)
    then show ?thesis by (simp add: handleStartTitration_warns_naoh)
  next
    case (ready b)
    then show ?thesis by (simp add: handleStartTitration_started)
  qed
  then show "cumulativeVolume (handleStartTitration props now k s) = cumulativeVolume s"
    "cumulativeColorIntensity (handleStartTitration props now k s) = cumulativeColorIntensity s"
    "completedSteps (handleStartTitration props now k s) = completedSteps s"
    by simp_all
qed

subsection \<open>Closures of an idle render never commit\<close>

lemma handleStartTitration_idle:
  assumes "idle_closures s" "\<not> isTitrating s"
  shows "idle_closures (handleStartTitration props now k s)"
proof (cases s rule: start_cases)
  case missing
  then show ?thesis using assms(1) by (simp add: handleStartTitration_warns idle_closures_def)
next
  case (unfilled b)
  then show ?thesis using assms(1) by (simp add: handleStartTitration_warns_naoh idle_closures_def)
next
  case (ready b)
  then show ?thesis using assms
    by (simp add: idle_closures_def handleStartTitration_started closure_of_sel)
qed

lemma run_callback_idle:
  assumes "closure_idle cb" "idle_closures s"
  shows "idle_closures (run_callback props now d cb s)"
    and "cumulative_of (run_callback props now d cb s) = cumulative_of s"
  using assms
  by (cases cb; simp add: idle_closures_def cumulative_of_def obs)+

lemma fire_idle:
  assumes "idle_closures s"
  shows "idle_closures (fire props now d i s) \<and>
         cumulative_of (fire props now d i s) = cumulative_of s"
proof (cases "i < length (pending s)")
  case True
  have cb: "closure_idle (pending s ! i)"
    using assms True by (simp add: idle_closures_def list_all_length)
  have rest: "idle_closures (s\<lparr>pending := take i (pending s) @ drop (Suc i) (pending s)\<rparr>)"
    using assms by (auto simp: idle_closures_def list_all_iff dest: in_set_takeD in_set_dropD)
  show ?thesis
    using True run_callback_idle[OF cb rest] by (simp add: fire_def cumulative_of_def)
next
  case False
  then show ?thesis using assms by (simp add: fire_def)
qed

lemma step_idle:
  assumes "idle_closures s"
  shows "idle_closures (step props now d e s)"
    and "e \<noteq> ClickReset \<Longrightarrow> cumulative_of (step props now d e s) = cumulative_of s"
proof -
  show "idle_closures (step props now d e s)"
  proof (cases e)
    case (ClickTitrationButton k)
    then show ?thesis using assms handleStartTitration_idle[OF assms]
      by (simp add: step_def titrationButtonClick_def idle_closures_def obs)
  next
    case ClickReset
    then show ?thesis using assms by (simp add: step_def idle_closures_def obs)
  next
    case (MarkStep n msg)
    then show ?thesis using assms by (simp add: step_def idle_closures_def obs)
  next
    case (RunPending i)
    then show ?thesis using fire_idle[OF assms] by (simp add: step_def)
  qed
  show "cumulative_of (step props now d e s) = cumulative_of s" if "e \<noteq> ClickReset"
  proof (cases e)
    case (ClickTitrationButton k)
    then show ?thesis
      by (simp add: step_def titrationButtonClick_def cumulative_of_def obs)
  next
    case ClickReset
    then show ?thesis using that by simp
  next
    case (MarkStep n msg)
    then show ?thesis by (simp add: step_def cumulative_of_def obs)
  next
    case (RunPending i)
    then show ?thesis using fire_idle[OF assms] by (simp add: step_def)
  qed
qed

text \<open>
  The button calls \<open>handleStartTitration\<close> from idle renders only, so every closure it
  makes has \<open>isTitrating = false\<close>, and the cycle-close callback of such a closure
  does nothing. From a state with no pending callback of a titrating render, no
  sequence of events moves the cumulative volume or the cumulative colour intensity
  away from their initial values.
\<close>

lemma run_never_commits:
  assumes "idle_closures s" "cumulative_of s = (5, 0)"
  shows "cumulative_of (run props es s) = (5, 0)"
  using assms
proof (induction es arbitrary: s)
  case Nil
  then show ?case by simp
next
  case (Cons x es)
  obtain now d e where x: "x = (now, d, e)" by (cases x)
  have idle: "idle_closures (step props now d e s)" by (rule step_idle(1)[OF Cons.prems(1)])
  have cum: "cumulative_of (step props now d e s) = (5, 0)"
  proof (cases "e = ClickReset")
    case True
    then show ?thesis by (simp add: step_def cumulative_of_def obs)
  next
    case False
    then show ?thesis using step_idle(2)[OF Cons.prems(1)] Cons.prems(2) by simp
  qed
  show ?case using Cons.IH[OF idle cum] by (simp add: x)
qed

subsection \<open>The completed-step set\<close>

lemma foldl_set_add:
  "set (foldl set_add acc xs) = set acc \<union> set xs"
  "distinct acc \<Longrightarrow> distinct (foldl set_add acc xs)"
  by (induction xs arbitrary: acc) (auto simp: set_add_def)

lemma foldl_set_add_distinct:
  "distinct (acc @ xs) \<Longrightarrow> foldl set_add acc xs = acc @ xs"
  by (induction xs arbitrary: acc) (auto simp: set_add_def)

lemma new_Set_props:
  "set (new_Set xs) = set xs" "distinct (new_Set xs)"
  by (simp_all add: new_Set_def foldl_set_add)

lemma new_Set_insert:
  assumes "distinct xs"
  shows "new_Set (xs @ [n]) = (if n \<in> set xs then xs else xs @ [n])"
proof -
  have xs: "foldl set_add [] xs = xs" using assms foldl_set_add_distinct[of "[]" xs] by simp
  show ?thesis by (simp add: new_Set_def xs set_add_def)
qed

lemma distinct_count_one: "distinct xs \<Longrightarrow> x \<in> set xs \<Longrightarrow> count_list xs x = 1"
  by (induction xs) auto

lemma run_callback_steps:
  "set (completedSteps s) \<subseteq> set (completedSteps (run_callback props now d cb s))"
  by (cases cb) (auto simp: obs new_Set_props)

lemma step_steps:
  assumes "e \<noteq> ClickReset"
  shows "set (completedSteps s) \<subseteq> set (completedSteps (step props now d e s))"
proof (cases e)
  case (ClickTitrationButton k)
  then show ?thesis by (simp add: step_def titrationButtonClick_def obs)
next
  case ClickReset
  then show ?thesis using assms by simp
next
  case (MarkStep n msg)
  then show ?thesis by (simp add: step_def obs)
next
  case (RunPending i)
  have "set (completedSteps s) \<subseteq> set (completedSteps (fire props now d i s))"
  proof (cases "i < length (pending s)")
    case True
    then show ?thesis
      using run_callback_steps[of "s\<lparr>pending := take i (pending s) @ drop (Suc i) (pending s)\<rparr>"]
      by (simp add: fire_def)
  next
    case False
    then show ?thesis by (simp add: fire_def)
  qed
  then show ?thesis using RunPending by (simp add: step_def)
qed

subsection \<open>The concrete states\<close>

lemma acid_base_title: "str_includes (experimentTitle titration_props) ''Acid-Base''"
  by (simp add: titration_props_def)

lemma easing_1: "easing 1 = 1"
  by (simp add: easing_def)

lemma ready_obs:
  "isTitrating ready_state = False" "cumulativeVolume ready_state = 5"
  "cumulativeColorIntensity ready_state = 0" "completedSteps ready_state = []"
  "pending ready_state = []" "results ready_state = []" "toastMessage ready_state = None"
  "can_start ready_state" "the (burette_of ready_state) = the_burette"
  "eq_x the_burette = 300" "eq_y the_burette = 100"
  by (simp_all add: ready_state_def initial_state_def can_start_def burette_of_def has_flask_def
        find_equipment_def the_burette_def the_flask_def has_chemical_def naoh_drop_def)

lemma titrating_obs:
  "isTitrating titrating_state"
  "can_start titrating_state"
  "pending titrating_state =
     [CompleteStep 4 ''Initial titration started'', ClearToast, ClearToast,
      AnimationFrame (closure_of 0 0 ready_state), DropInterval (closure_of 0 0 ready_state) 300 100]"
  "completedSteps titrating_state = []"
  "results titrating_state = [initialResult]"
  "cumulativeVolume titrating_state = 5"
  "cumulativeColorIntensity titrating_state = 0"
  using acid_base_title
  by (simp_all add: titrating_state_def titrationButtonClick_def ready_obs obs)

section \<open>Titration animator and step tracker: the claims\<close>

text \<open>
  Claim C1, as stated: in a state in which the titration is running, a second call
  of \<open>handleStartTitration\<close> is a no-op that starts no second animation loop.
  \<open>handleStartTitration\<close> does not read \<open>isTitrating\<close> before it acts. Called in the
  state right after a start, it appends a second initial result and requests a second
  animation frame beside the one in flight.
\<close>

theorem C1_counterexample:
  "isTitrating titrating_state \<and>
   frames_in_flight titrating_state = 1 \<and>
   frames_in_flight (handleStartTitration titration_props 100 0 titrating_state) = 2 \<and>
   results (handleStartTitration titration_props 100 0 titrating_state) =
     results titrating_state @ [initialResult]"
  using acid_base_title
  by (simp add: frames_in_flight_def is_AnimationFrame_def titrating_obs obs)

text \<open>
  Claim C1, amended: the guard is the Start/Stop button, not the handler. In every
  state in which the titration is running the button calls \<open>handleStopTitration\<close> and
  not \<open>handleStartTitration\<close>; the click leaves \<open>cumulativeVolume\<close> and
  \<open>cumulativeColorIntensity\<close> unchanged and starts no animation loop, and it ends the
  titration, so it is not a no-op. \<open>handleStartTitration\<close> itself, in whatever state it
  is called, leaves both cumulative values as they are when it returns.
\<close>

theorem C1_button_guard:
  "(isTitrating s \<longrightarrow>
      titrationButtonClick props now k s = handleStopTitration s \<and>
      cumulativeVolume (titrationButtonClick props now k s) = cumulativeVolume s \<and>
      cumulativeColorIntensity (titrationButtonClick props now k s) = cumulativeColorIntensity s \<and>
      frames_in_flight (titrationButtonClick props now k s) = frames_in_flight s \<and>
      \<not> isTitrating (titrationButtonClick props now k s)) \<and>
   cumulativeVolume (handleStartTitration props now k s) = cumulativeVolume s \<and>
   cumulativeColorIntensity (handleStartTitration props now k s) = cumulativeColorIntensity s"
  by (simp add: titrationButtonClick_def frames_in_flight_def is_AnimationFrame_def obs)

theorem C1_button_guard_witness:
  "isTitrating titrating_state \<and>
   titrationButtonClick titration_props 100 0 titrating_state = handleStopTitration titrating_state \<and>
   cumulativeVolume (titrationButtonClick titration_props 100 0 titrating_state) = 5 \<and>
   cumulativeColorIntensity (titrationButtonClick titration_props 100 0 titrating_state) = 0 \<and>
   frames_in_flight (titrationButtonClick titration_props 100 0 titrating_state) = 1 \<and>
   \<not> isTitrating (titrationButtonClick titration_props 100 0 titrating_state)"
proof -
  have frames: "frames_in_flight titrating_state = 1"
    by (simp add: frames_in_flight_def is_AnimationFrame_def titrating_obs)
  note guard = C1_button_guard[of titrating_state titration_props 100 0]
  have "titrationButtonClick titration_props 100 0 titrating_state = handleStopTitration titrating_state"
    and "cumulativeVolume (titrationButtonClick titration_props 100 0 titrating_state) =
         cumulativeVolume titrating_state"
    and "cumulativeColorIntensity (titrationButtonClick titration_props 100 0 titrating_state) =
         cumulativeColorIntensity titrating_state"
    and "frames_in_flight (titrationButtonClick titration_props 100 0 titrating_state) =
         frames_in_flight titrating_state"
    and "\<not> isTitrating (titrationButtonClick titration_props 100 0 titrating_state)"
    using guard titrating_obs(1) by blast+
  then show ?thesis by (simp add: titrating_obs frames)
qed

text \<open>
  Claim C3: when a titration cycle closes, the committed \<open>cumulativeVolume\<close> is the
  value before the cycle plus 20, and after two cycles back to back
  \<open>cumulativeColorIntensity\<close> exceeds 1 and the cycle result is flagged as
  over-titration.

  The code computes these values and does not commit them. The callback that closes
  the cycle is guarded by \<open>if (isTitrating)\<close>, and that \<open>isTitrating\<close> is the constant of
  the render in which Start Titration was clicked, which is false. In the run
  \<open>two_cycles\<close> from \<open>ready_state\<close> the frame at 8000 ms schedules the close with the
  values 25 and 1; after both cycles the cumulative volume is still 5, the cumulative
  colour intensity is still 0, the titration still counts as running, and the results
  log holds the two initial results and no cycle result.
\<close>

theorem C3_two_cycles_commit_nothing:
  "\<not> cl_isTitrating (closure_of 0 0 ready_state) \<and>
   pending (run titration_props (take 7 two_cycles) ready_state) =
     [CompleteStep 5 ''Endpoint identified - solution turned pink'',
      CycleClose (closure_of 0 0 ready_state) 25 1] \<and>
   cumulativeVolume (run titration_props two_cycles ready_state) = 5 \<and>
   cumulativeColorIntensity (run titration_props two_cycles ready_state) = 0 \<and>
   isTitrating (run titration_props two_cycles ready_state) \<and>
   completedSteps (run titration_props two_cycles ready_state) = [4, 5] \<and>
   results (run titration_props two_cycles ready_state) = [initialResult, initialResult]"
  using acid_base_title
  by (simp add: two_cycles_def step_def titrationButtonClick_def fire_def obs ready_obs
       closure_of_sel progress_at_def easing_1 new_Set_def set_add_def)

text \<open>
  The values that the closing callback would commit, were its guard true, are the ones
  of the claim: the volume before the cycle plus 20 and the intensity before the cycle
  plus 1. The over-titration flag of its result reads the intensity before the cycle.
\<close>

lemma cycle_close_of_titrating_closure:
  assumes "cl_isTitrating cl" "cl_startTime cl + 8000 \<le> now"
  shows "pending (animateColor props cl now s) =
           pending s @
           (if 5 \<notin> set (cl_completedSteps cl) \<and> str_includes (experimentTitle props) ''Acid-Base''
            then [CompleteStep 5 ''Endpoint identified - solution turned pink''] else []) @
           [CycleClose cl (cl_cumulativeVolume cl + 20) (cl_cumulativeColorIntensity cl + 1)]"
    and "cumulativeVolume (run_CycleClose cl v c s) = v"
    and "cumulativeColorIntensity (run_CycleClose cl v c s) = c"
    and "res_title (last (results (run_CycleClose cl v c s))) =
           (if cl_cumulativeColorIntensity cl > 1 then ''Over-Titration Detected''
            else ''Acid-Base Titration Cycle Complete'')"
proof -
  have p: "progress_at cl now = 1" using assms(2) by (simp add: progress_at_def min_def)
  show "pending (animateColor props cl now s) =
           pending s @
           (if 5 \<notin> set (cl_completedSteps cl) \<and> str_includes (experimentTitle props) ''Acid-Base''
            then [CompleteStep 5 ''Endpoint identified - solution turned pink''] else []) @
           [CycleClose cl (cl_cumulativeVolume cl + 20) (cl_cumulativeColorIntensity cl + 1)]"
    by (simp add: obs p easing_1)
  show "cumulativeVolume (run_CycleClose cl v c s) = v" using assms(1) by (simp add: obs)
  show "cumulativeColorIntensity (run_CycleClose cl v c s) = c" using assms(1) by (simp add: obs)
  show "res_title (last (results (run_CycleClose cl v c s))) =
           (if cl_cumulativeColorIntensity cl > 1 then ''Over-Titration Detected''
            else ''Acid-Base Titration Cycle Complete'')"
    using assms(1) by (simp add: obs titrationResult_def)
qed

text \<open>
  What holds of the step tracker. A call of \<open>markStepCompleted\<close> from the current
  render, in an Acid-Base experiment, defers an update that inserts the step iff it is
  not in the set; once the update has run the set holds the step exactly once, and a
  further call from a render that has seen the update does nothing.
\<close>

lemma markStepCompleted_current_render:
  assumes "str_includes (experimentTitle props) ''Acid-Base''" "distinct (completedSteps s)"
  shows "let s2 = fire props now d (length (pending s))
                    (markStepCompleted props (completedSteps s) n msg s)
         in completedSteps s2 =
              (if n \<in> set (completedSteps s) then completedSteps s else completedSteps s @ [n]) \<and>
            count_list (completedSteps s2) n = 1 \<and>
            markStepCompleted props (completedSteps s2) n msg' s2 = s2"
proof -
  define s1 where "s1 = markStepCompleted props (completedSteps s) n msg s"
  define s2 where "s2 = fire props now d (length (pending s)) s1"
  have steps: "completedSteps s2 =
      (if n \<in> set (completedSteps s) then completedSteps s else completedSteps s @ [n])"
  proof (cases "n \<in> set (completedSteps s)")
    case True
    then have "s1 = s" by (simp add: s1_def markStepCompleted_def)
    then show ?thesis using True by (simp add: s2_def fire_def)
  next
    case False
    then have "pending s1 = pending s @ [CompleteStep n msg]"
      using assms(1) by (simp add: s1_def obs)
    then have "s2 = run_CompleteStep n msg (s1\<lparr>pending := pending s\<rparr>)"
      by (simp add: s2_def fire_def)
    then show ?thesis using False assms(2) by (simp add: obs s1_def new_Set_insert)
  qed
  have mem: "n \<in> set (completedSteps s2)" and dist: "distinct (completedSteps s2)"
    using assms(2) by (simp_all add: steps)
  have once: "count_list (completedSteps s2) n = 1"
    by (rule distinct_count_one[OF dist mem])
  have again: "markStepCompleted props (completedSteps s2) n msg' s2 = s2"
    using mem by (simp add: markStepCompleted_def)
  show ?thesis
    using steps once again unfolding Let_def s1_def s2_def by blast
qed

text \<open>
  Two calls from the same render both pass the test, since both read the set of that
  render: two updates are scheduled and the notification is emitted twice.
\<close>

lemma markStepCompleted_twice_same_render:
  assumes "str_includes (experimentTitle props) ''Acid-Base''" "n \<notin> set captured"
  shows "pending (markStepCompleted props captured n msg (markStepCompleted props captured n msg s)) =
           pending s @ [CompleteStep n msg, CompleteStep n msg]"
  using assms by (simp add: obs)

lemma easing_values: "easing (1 / 2) = 1 / 2" "easing (7 / 8) = 127 / 128"
  by (simp_all add: easing_def power3_eq_cube)

text \<open>
  Claim C6: \<open>markStepCompleted\<close> inserts the step number into the completed-step set
  iff it is not already there; called twice with the same step number it leaves the
  set holding the step exactly once and the second call emits no duplicate
  notification; only the reset removes a step.

  The set is as the claim says (\<open>step_steps\<close>, \<open>markStepCompleted_current_render\<close>);
  the notification is not. \<open>animateColor\<close> tests \<open>completedSteps.has(5)\<close> and calls
  \<open>markStepCompleted(5, ...)\<close>, which tests it again, but both read the
  \<open>completedSteps\<close> of the render in which Start Titration was clicked. In the run
  \<open>duplicate_run\<close> from \<open>ready_state\<close> the frame at 4000 ms schedules the update of
  step 5; the update runs and emits the notification, and the set is \<open>[4, 5]\<close>; the
  timer clears the toast at 7000 ms; the next frame, run when the state already holds
  step 5, schedules the update once more, and running it emits the same notification a
  second time. The set holds step 5 exactly once throughout.
\<close>

theorem C6_duplicate_notification:
  "completedSteps (run titration_props (take 8 duplicate_run) ready_state) = [4, 5] \<and>
   toastMessage (run titration_props (take 8 duplicate_run) ready_state) =
     Some ''Step 5 completed: Endpoint identified - solution turned pink'' \<and>
   toastMessage (run titration_props (take 9 duplicate_run) ready_state) = None \<and>
   pending (run titration_props (take 10 duplicate_run) ready_state) =
     [CompleteStep 5 ''Endpoint identified - solution turned pink'',
      AnimationFrame (closure_of 0 0 ready_state)] \<and>
   toastMessage (run titration_props duplicate_run ready_state) =
     Some ''Step 5 completed: Endpoint identified - solution turned pink'' \<and>
   completedSteps (run titration_props duplicate_run ready_state) = [4, 5] \<and>
   count_list (completedSteps (run titration_props duplicate_run ready_state)) 5 = 1"
  using acid_base_title
  by (simp add: duplicate_run_def step_def titrationButtonClick_def fire_def obs ready_obs
       closure_of_sel progress_at_def easing_values new_Set_def set_add_def
       step_toast_def number_to_string_def nat_digits.simps)

text \<open>
  Claim C7: \<open>handleStartTitration\<close> moves from idle to titrating only if the workbench
  holds a burette that contains \<open>naoh\<close> and a conical flask. If the burette or the
  flask is missing, or the burette holds no \<open>naoh\<close>, it sets a warning toast (and the
  timer that clears it) and changes nothing else: the equipment, the cumulative values
  and \<open>isTitrating\<close> stay as they are.
\<close>

theorem C7_start_needs_apparatus:
  "(find_equipment ''burette'' (equipmentPositions s) = None \<or>
    find_equipment ''conical_flask'' (equipmentPositions s) = None \<longrightarrow>
      handleStartTitration props now k s =
        s\<lparr>toastMessage := Some ''Please place both burette and conical flask first!'',
          pending := pending s @ [ClearToast]\<rparr>) \<and>
   (find_equipment ''burette'' (equipmentPositions s) = Some b \<and>
    find_equipment ''conical_flask'' (equipmentPositions s) \<noteq> None \<and>
    \<not> has_chemical ''naoh'' (eq_chemicals b) \<longrightarrow>
      handleStartTitration props now k s =
        s\<lparr>toastMessage := Some ''Please add NaOH to the burette first!'',
          pending := pending s @ [ClearToast]\<rparr>) \<and>
   (\<not> isTitrating s \<and> isTitrating (handleStartTitration props now k s) \<longrightarrow>
      (\<exists>b \<in> set (equipmentPositions s).
          eq_id b = ''burette'' \<and> has_chemical ''naoh'' (eq_chemicals b)) \<and>
      (\<exists>f \<in> set (equipmentPositions s). eq_id f = ''conical_flask''))"
proof (intro conjI impI)
  assume "find_equipment ''burette'' (equipmentPositions s) = None \<or>
    find_equipment ''conical_flask'' (equipmentPositions s) = None"
  then have "burette_of s = None \<or> \<not> has_flask s" by (simp add: burette_of_def has_flask_def)
  then show "handleStartTitration props now k s =
        s\<lparr>toastMessage := Some ''Please place both burette and conical flask first!'',
          pending := pending s @ [ClearToast]\<rparr>"
    by (rule handleStartTitration_warns)
next
  assume "find_equipment ''burette'' (equipmentPositions s) = Some b \<and>
    find_equipment ''conical_flask'' (equipmentPositions s) \<noteq> None \<and>
    \<not> has_chemical ''naoh'' (eq_chemicals b)"
  then have "burette_of s = Some b" "has_flask s" "\<not> has_chemical ''naoh'' (eq_chemicals b)"
    by (simp_all add: burette_of_def has_flask_def)
  then show "handleStartTitration props now k s =
        s\<lparr>toastMessage := Some ''Please add NaOH to the burette first!'',
          pending := pending s @ [ClearToast]\<rparr>"
    by (rule handleStartTitration_warns_naoh)
next
  assume a: "\<not> isTitrating s \<and> isTitrating (handleStartTitration props now k s)"
  have ready: "\<exists>b. burette_of s = Some b \<and> has_flask s \<and> has_chemical ''naoh'' (eq_chemicals b)"
  proof (cases s rule: start_cases)
    case missing
    then show ?thesis using a by (simp add: handleStartTitration_warns)
  next
    case (unfilled b)
    then show ?thesis using a by (simp add: handleStartTitration_warns_naoh)
  next
    case (ready b)
    then show ?thesis by blast
  qed
  then obtain b where b: "find_equipment ''burette'' (equipmentPositions s) = Some b"
    "has_chemical ''naoh'' (eq_chemicals b)" and fl: "has_flask s"
    by (auto simp: burette_of_def)
  obtain f where f: "find_equipment ''conical_flask'' (equipmentPositions s) = Some f"
    using fl by (auto simp: has_flask_def)
  show "\<exists>b \<in> set (equipmentPositions s).
          eq_id b = ''burette'' \<and> has_chemical ''naoh'' (eq_chemicals b)"
    using find_equipment_Some[OF b(1)] b(2) by blast
  show "\<exists>f \<in> set (equipmentPositions s). eq_id f = ''conical_flask''"
    using find_equipment_Some[OF f] by blast
qed

theorem C7_start_needs_apparatus_witness:
  "find_equipment ''burette'' (equipmentPositions (initial_state titration_props)) = None \<and>
   handleStartTitration titration_props 0 0 (initial_state titration_props) =
     (initial_state titration_props)
       \<lparr>toastMessage := Some ''Please place both burette and conical flask first!'',
        pending := [ClearToast]\<rparr> \<and>
   find_equipment ''burette'' (equipmentPositions unfilled_state) = Some empty_burette \<and>
   find_equipment ''conical_flask'' (equipmentPositions unfilled_state) \<noteq> None \<and>
   \<not> has_chemical ''naoh'' (eq_chemicals empty_burette) \<and>
   handleStartTitration titration_props 0 0 unfilled_state =
     unfilled_state\<lparr>toastMessage := Some ''Please add NaOH to the burette first!'',
                    pending := [ClearToast]\<rparr> \<and>
   \<not> isTitrating ready_state \<and> isTitrating (handleStartTitration titration_props 0 0 ready_state) \<and>
   (\<exists>b \<in> set (equipmentPositions ready_state).
       eq_id b = ''burette'' \<and> has_chemical ''naoh'' (eq_chemicals b)) \<and>
   (\<exists>f \<in> set (equipmentPositions ready_state). eq_id f = ''conical_flask'')"
proof -
  have i: "find_equipment ''burette'' (equipmentPositions (initial_state titration_props)) = None"
    "pending (initial_state titration_props) = []"
    by (simp_all add: initial_state_def find_equipment_def)
  have u: "find_equipment ''burette'' (equipmentPositions unfilled_state) = Some empty_burette"
    "find_equipment ''conical_flask'' (equipmentPositions unfilled_state) \<noteq> None"
    "\<not> has_chemical ''naoh'' (eq_chemicals empty_burette)"
    "pending unfilled_state = []"
    by (simp_all add: unfilled_state_def initial_state_def find_equipment_def empty_burette_def
          the_flask_def has_chemical_def)
  have r: "\<not> isTitrating ready_state" "isTitrating (handleStartTitration titration_props 0 0 ready_state)"
    by (simp_all add: ready_obs obs)
  have w1: "handleStartTitration titration_props 0 0 (initial_state titration_props) =
     (initial_state titration_props)
       \<lparr>toastMessage := Some ''Please place both burette and conical flask first!'',
        pending := [ClearToast]\<rparr>"
    using C7_start_needs_apparatus[of "initial_state titration_props" titration_props 0 0 empty_burette] i
    by simp
  have w2: "handleStartTitration titration_props 0 0 unfilled_state =
     unfilled_state\<lparr>toastMessage := Some ''Please add NaOH to the burette first!'',
                    pending := [ClearToast]\<rparr>"
    using C7_start_needs_apparatus[of unfilled_state titration_props 0 0 empty_burette] u
    by simp
  have w3: "(\<exists>b \<in> set (equipmentPositions ready_state).
       eq_id b = ''burette'' \<and> has_chemical ''naoh'' (eq_chemicals b)) \<and>
   (\<exists>f \<in> set (equipmentPositions ready_state). eq_id f = ''conical_flask'')"
    using C7_start_needs_apparatus[of ready_state titration_props 0 0 empty_burette] r
    by blast
  show ?thesis using i(1) u(1,2,3) r w1 w2 w3 by blast
qed

text \<open>
  Claim C8: after any sequence of events, so after any number of titration cycles,
  the reset puts \<open>cumulativeVolume\<close> back to 5.0, \<open>cumulativeColorIntensity\<close> back to 0
  and empties the completed-step set.
\<close>

theorem C8_reset_clears_cumulative_state:
  "cumulativeVolume (onReset props (run props es s)) = 5 \<and>
   cumulativeColorIntensity (onReset props (run props es s)) = 0 \<and>
   completedSteps (onReset props (run props es s)) = []"
  by (simp add: onReset_def schedule_def)

end
